theory Spec2Isabelle
  imports Complex_Main
begin

section \<open>Conventions\<close>

text \<open>
  The analysis core of EasyMeter is the class \<open>MiniMetersCloneAudioProcessor\<close>
  (declared in \<open>PluginProcessor.h\<close>, implemented in \<open>PluginProcessor.cpp\<close>).

  \<^item> \<open>float\<close> and \<open>double\<close> are read as exact real numbers (\<^typ>\<open>real\<close>): rounding,
    overflow to infinity and NaN are outside the model, and a conversion between
    \<open>float\<close> and \<open>double\<close> is the identity.
  \<^item> An \<open>int\<close> or \<open>size_t\<close> member that holds a size, a count or an array index is a
    \<^typ>\<open>nat\<close>: each of them starts at 0 and is only advanced modulo a capacity or
    saturated at one.
  \<^item> A \<open>std::vector\<close> or \<open>std::array\<close> is a list; a C array indexed by channel or band
    is a function from the index; a \<open>juce::AudioBuffer\<close> is the list of its channels.
  \<^item> A member function that mutates the object takes the object and returns it updated.
  \<^item> The spin lock of the shared aggregate is the flag \<open>lock\<close>: it is \<open>True\<close> while
    another thread holds it, so that \<open>tryEnter\<close> fails exactly when the flag is set.
\<close>

subsection \<open>JUCE and standard-library helpers\<close>

definition jmax :: "'a::linorder \<Rightarrow> 'a \<Rightarrow> 'a" where
  "jmax a b = (if a < b then b else a)"

definition jmin :: "'a::linorder \<Rightarrow> 'a \<Rightarrow> 'a" where
  "jmin a b = (if b < a then b else a)"

definition jlimit :: "'a::linorder \<Rightarrow> 'a \<Rightarrow> 'a \<Rightarrow> 'a" where
  "jlimit lowerLimit upperLimit valueToConstrain =
     (if valueToConstrain < lowerLimit then lowerLimit
      else if upperLimit < valueToConstrain then upperLimit
      else valueToConstrain)"

text \<open>\<open>std::round\<close>: to the nearest integer, halfway cases away from zero.\<close>

definition std_round :: "real \<Rightarrow> int" where
  "std_round x = (if 0 \<le> x then \<lfloor>x + 1 / 2\<rfloor> else \<lceil>x - 1 / 2\<rceil>)"

type_synonym AudioBuffer = "real list list"

definition getNumChannels :: "AudioBuffer \<Rightarrow> nat" where
  "getNumChannels b = length b"

definition getNumSamples :: "AudioBuffer \<Rightarrow> nat" where
  "getNumSamples b = (case b of [] \<Rightarrow> 0 | c # _ \<Rightarrow> length c)"

text \<open>\<open>AudioBuffer::setSize (channels, samples)\<close> followed by \<open>clear()\<close>.\<close>

definition clearedBuffer :: "nat \<Rightarrow> nat \<Rightarrow> AudioBuffer" where
  "clearedBuffer channels samples = replicate channels (replicate samples 0)"

subsection \<open>Constants of the header\<close>

definition kWaveformResolution :: nat where
  "kWaveformResolution = 512"

definition kOscilloscopeBufferSize :: nat where
  "kOscilloscopeBufferSize = 2048"

definition kLoudnessHistoryIntervalSeconds :: real where
  "kLoudnessHistoryIntervalSeconds = 5 / 100"

definition kLoudnessHistorySpanSeconds :: real where
  "kLoudnessHistorySpanSeconds = 20"

text \<open>The member \<open>juce::dsp::FFT fft { 11 }\<close> has order 11; \<open>fft.getSize()\<close> is \<open>1 << 11\<close>.\<close>

definition fft_getSize :: nat where
  "fft_getSize = 2 ^ 11"

section \<open>Data model\<close>

record TransportInfo =
  hasInfo :: bool
  bpm :: real
  ppqPosition :: real
  ppqPositionOfLastBarStart :: real
  timeSigNumerator :: int
  timeSigDenominator :: int
  isPlaying :: bool

definition TransportInfo_default :: TransportInfo where
  "TransportInfo_default =
     \<lparr>hasInfo = False, bpm = 120, ppqPosition = 0, ppqPositionOfLastBarStart = 0,
      timeSigNumerator = 4, timeSigDenominator = 4, isPlaying = False\<rparr>"

record SharedDataSnapshot =
  audioHistory :: AudioBuffer
  writePosition :: nat
  bufferWrapped :: bool
  waveformLeftMins :: "real list"
  waveformLeftMaxs :: "real list"
  waveformRightMins :: "real list"
  waveformRightMaxs :: "real list"
  waveformSamplesPerBucket :: nat
  waveformLeftLowBand :: "real list"
  waveformLeftMidBand :: "real list"
  waveformLeftHighBand :: "real list"
  waveformRightLowBand :: "real list"
  waveformRightMidBand :: "real list"
  waveformRightHighBand :: "real list"
  oscilloscope :: "real list"
  spectrum :: "real list"
  spectrogram :: AudioBuffer
  spectrogramWritePosition :: nat
  spectrogramWrapped :: bool
  lissajous :: "(real \<times> real) list"
  lissajousCount :: nat
  momentaryLufs :: real
  shortTermLufs :: real
  integratedLufs :: real
  loudnessRange :: real
  maxMomentaryLufs :: real
  maxShortTermLufs :: real
  rmsFast :: real
  rmsSlow :: real
  correlation :: real
  stereoWidth :: real
  leftRms :: real
  rightRms :: real
  midRms :: real
  sideRms :: real
  balanceDb :: real
  vuNeedleL :: real
  vuNeedleR :: real
  clipLeft :: bool
  clipRight :: bool
  peakLeft :: real
  peakRight :: real
  sampleRate :: real
  loudnessHistoryInterval :: real
  loudnessHistory :: "real list"
  transport :: TransportInfo

record SharedState =
  lock :: bool
  audioHistory :: AudioBuffer
  writePosition :: nat
  hasWrapped :: bool
  spectrum :: "real list"
  spectrumAverages :: "real list"
  waveformMin :: "nat \<Rightarrow> real list"
  waveformMax :: "nat \<Rightarrow> real list"
  waveformBandEnergy :: "nat \<Rightarrow> nat \<Rightarrow> real list"
  waveformSamplesPerBucket :: nat
  waveformWriteIndex :: nat
  waveformFilled :: nat
  waveformSampleCounter :: nat
  waveformCurrentMin :: "nat \<Rightarrow> real"
  waveformCurrentMax :: "nat \<Rightarrow> real"
  waveformBandAccum :: "nat \<Rightarrow> nat \<Rightarrow> real"
  oscilloscopeBuffer :: "real list"
  oscilloscopeWriteIndex :: nat
  oscilloscopeFilled :: nat
  spectrogramHistory :: AudioBuffer
  spectrogramWritePosition :: nat
  spectrogramWrapped :: bool
  lissajousPoints :: "(real \<times> real) list"
  lissajousCount :: nat
  momentaryLufs :: real
  shortTermLufs :: real
  integratedLufs :: real
  loudnessRange :: real
  maxMomentary :: real
  maxShortTerm :: real
  rmsFast :: real
  rmsSlow :: real
  correlation :: real
  stereoWidth :: real
  leftRms :: real
  rightRms :: real
  midRms :: real
  sideRms :: real
  balanceDb :: real
  vuNeedleL :: real
  vuNeedleR :: real
  clippedL :: bool
  clippedR :: bool
  loudnessHistory :: "real list"
  loudnessHistoryWrite :: nat
  loudnessHistoryFilled :: nat
  loudnessHistoryInterval :: real
  transport :: TransportInfo

text \<open>
  The private and public members of the processor that the analysis uses. The JUCE filter
  objects, the FFT engine and the editor preferences are not part of the record;
  \<open>getSampleRate\<close> is the sample rate the host base class reports.
\<close>

record MiniMetersCloneAudioProcessor =
  peakL :: real
  peakR :: real
  rmsL :: real
  rmsR :: real
  shared :: SharedState
  getSampleRate :: real
  sampleRate :: real
  peakRiseCoeff :: real
  peakFallCoeff :: real
  rmsCoeff :: real
  momentaryCoeff :: real
  shortTermCoeff :: real
  rmsFastCoeff :: real
  rmsSlowCoeff :: real
  vuCoeff :: real
  integratedBlockSamples :: nat
  integratedEnergyAccumulator :: real
  integratedSampleCounter :: nat
  integratedBlockEnergies :: "real list"
  integratedWriteIndex :: nat
  integratedFilled :: nat
  integratedScratch :: "real list"
  loudnessHistoryIntervalSamples :: nat
  loudnessHistorySampleCounter :: nat
  loudnessHistoryCapacity :: nat
  shortTermHistoryBuffer :: "real list"
  shortTermHistoryWriteIndex :: nat
  shortTermHistoryFilled :: nat
  shortTermScratch :: "real list"
  integratedLoudness :: real
  loudnessRangeValue :: real
  maxMomentaryLufs :: real
  maxShortTermLufs :: real
  fftInput :: "real list"
  fftScratch :: "real list"
  fftSpectrumFrame :: "real list"
  fftInputPos :: nat
  fftHop :: nat
  lastTransportInfo :: TransportInfo
  momentaryEnergy :: real
  shortTermEnergy :: real
  rmsFastEnergy :: real
  rmsSlowEnergy :: real
  vuEnergyL :: real
  vuEnergyR :: real

section \<open>Construction\<close>

text \<open>
  \<open>initialiseSharedState\<close>, called by the constructor. The band-energy vectors are not
  assigned here (only \<open>prepareToPlay\<close> sizes them), so they keep their default, empty.
\<close>

definition initialiseSharedState :: SharedState where
  "initialiseSharedState =
     \<lparr>lock = False,
      audioHistory = clearedBuffer 2 1,
      writePosition = 0,
      hasWrapped = False,
      spectrum = [],
      spectrumAverages = [],
      waveformMin = (\<lambda>ch. replicate kWaveformResolution 0),
      waveformMax = (\<lambda>ch. replicate kWaveformResolution 0),
      waveformBandEnergy = (\<lambda>ch band. []),
      waveformSamplesPerBucket = 1,
      waveformWriteIndex = 0,
      waveformFilled = 0,
      waveformSampleCounter = 0,
      waveformCurrentMin = (\<lambda>ch. 1),
      waveformCurrentMax = (\<lambda>ch. - 1),
      waveformBandAccum = (\<lambda>ch band. 0),
      oscilloscopeBuffer = replicate kOscilloscopeBufferSize 0,
      oscilloscopeWriteIndex = 0,
      oscilloscopeFilled = 0,
      spectrogramHistory = clearedBuffer 1 1,
      spectrogramWritePosition = 0,
      spectrogramWrapped = False,
      lissajousPoints = replicate 512 (0, 0),
      lissajousCount = 0,
      momentaryLufs = - 100,
      shortTermLufs = - 100,
      integratedLufs = - 100,
      loudnessRange = 0,
      maxMomentary = - 100,
      maxShortTerm = - 100,
      rmsFast = 0,
      rmsSlow = 0,
      correlation = 0,
      stereoWidth = 0,
      leftRms = 0,
      rightRms = 0,
      midRms = 0,
      sideRms = 0,
      balanceDb = 0,
      vuNeedleL = 0,
      vuNeedleR = 0,
      clippedL = False,
      clippedR = False,
      loudnessHistory = [],
      loudnessHistoryWrite = 0,
      loudnessHistoryFilled = 0,
      loudnessHistoryInterval = kLoudnessHistoryIntervalSeconds,
      transport = TransportInfo_default\<rparr>"

text \<open>The object after its constructor: the default member initialisers of the header.\<close>

definition constructed :: MiniMetersCloneAudioProcessor where
  "constructed =
     \<lparr>peakL = 0, peakR = 0, rmsL = 0, rmsR = 0,
      shared = initialiseSharedState,
      getSampleRate = 0,
      sampleRate = 48000,
      peakRiseCoeff = 0, peakFallCoeff = 0, rmsCoeff = 0,
      momentaryCoeff = 0, shortTermCoeff = 0,
      rmsFastCoeff = 0, rmsSlowCoeff = 0, vuCoeff = 0,
      integratedBlockSamples = 0,
      integratedEnergyAccumulator = 0,
      integratedSampleCounter = 0,
      integratedBlockEnergies = [],
      integratedWriteIndex = 0,
      integratedFilled = 0,
      integratedScratch = [],
      loudnessHistoryIntervalSamples = 0,
      loudnessHistorySampleCounter = 0,
      loudnessHistoryCapacity = 0,
      shortTermHistoryBuffer = [],
      shortTermHistoryWriteIndex = 0,
      shortTermHistoryFilled = 0,
      shortTermScratch = [],
      integratedLoudness = - 100,
      loudnessRangeValue = 0,
      maxMomentaryLufs = - 100,
      maxShortTermLufs = - 100,
      fftInput = [], fftScratch = [], fftSpectrumFrame = [],
      fftInputPos = 0,
      fftHop = 512,
      lastTransportInfo = TransportInfo_default,
      momentaryEnergy = 1 / 10 ^ 9,
      shortTermEnergy = 1 / 10 ^ 9,
      rmsFastEnergy = 1 / 10 ^ 9,
      rmsSlowEnergy = 1 / 10 ^ 9,
      vuEnergyL = 0,
      vuEnergyR = 0\<rparr>"

text \<open>A default-constructed \<open>SharedDataSnapshot\<close>, as the editor owns one.\<close>

definition SharedDataSnapshot_default :: SharedDataSnapshot where
  "SharedDataSnapshot_default =
     \<lparr>SharedDataSnapshot.audioHistory = [], SharedDataSnapshot.writePosition = 0, SharedDataSnapshot.bufferWrapped = False,
      SharedDataSnapshot.waveformLeftMins = [], SharedDataSnapshot.waveformLeftMaxs = [],
      SharedDataSnapshot.waveformRightMins = [], SharedDataSnapshot.waveformRightMaxs = [],
      SharedDataSnapshot.waveformSamplesPerBucket = 0,
      SharedDataSnapshot.waveformLeftLowBand = [], SharedDataSnapshot.waveformLeftMidBand = [], SharedDataSnapshot.waveformLeftHighBand = [],
      SharedDataSnapshot.waveformRightLowBand = [], SharedDataSnapshot.waveformRightMidBand = [], SharedDataSnapshot.waveformRightHighBand = [],
      SharedDataSnapshot.oscilloscope = [], SharedDataSnapshot.spectrum = [], SharedDataSnapshot.spectrogram = [],
      SharedDataSnapshot.spectrogramWritePosition = 0, SharedDataSnapshot.spectrogramWrapped = False,
      SharedDataSnapshot.lissajous = replicate 512 (0, 0), SharedDataSnapshot.lissajousCount = 0,
      SharedDataSnapshot.momentaryLufs = - 100, SharedDataSnapshot.shortTermLufs = - 100, SharedDataSnapshot.integratedLufs = - 100,
      SharedDataSnapshot.loudnessRange = 0, SharedDataSnapshot.maxMomentaryLufs = - 100, SharedDataSnapshot.maxShortTermLufs = - 100,
      SharedDataSnapshot.rmsFast = 0, SharedDataSnapshot.rmsSlow = 0, SharedDataSnapshot.correlation = 0, SharedDataSnapshot.stereoWidth = 0,
      SharedDataSnapshot.leftRms = 0, SharedDataSnapshot.rightRms = 0, SharedDataSnapshot.midRms = 0, SharedDataSnapshot.sideRms = 0, SharedDataSnapshot.balanceDb = 0,
      SharedDataSnapshot.vuNeedleL = 0, SharedDataSnapshot.vuNeedleR = 0, SharedDataSnapshot.clipLeft = False, SharedDataSnapshot.clipRight = False,
      SharedDataSnapshot.peakLeft = 0, SharedDataSnapshot.peakRight = 0, SharedDataSnapshot.sampleRate = 48000,
      SharedDataSnapshot.loudnessHistoryInterval = 0, SharedDataSnapshot.loudnessHistory = [],
      SharedDataSnapshot.transport = TransportInfo_default\<rparr>"

section \<open>Ring buffers: the write idiom and the read-out\<close>

text \<open>
  Every ring of the processor is written with the same three statements
  \<^verbatim>\<open>buf[w] = v;  w = (w + 1) % capacity;  filled = jmin (capacity, filled + 1);\<close>
  and linearised by the same loop
  \<^verbatim>\<open>start = (w - valid + capacity) % capacity;
  for (i = 0; i < valid; ++i) out[i] = buf[(start + i) % capacity];\<close>
  The read-out below is that loop; \<open>valid\<close> never exceeds \<open>capacity\<close> where it is called
  (it is \<open>jmin (capacity, filled)\<close>), so the sum \<open>w + capacity - valid\<close> is the source's
  \<open>w - valid + capacity\<close>.
\<close>

definition ring_readout :: "'a list \<Rightarrow> nat \<Rightarrow> nat \<Rightarrow> nat \<Rightarrow> 'a list" where
  "ring_readout buf writeIndex valid capacity =
     (let start = (writeIndex + capacity - valid) mod capacity
      in map (\<lambda>i. buf ! ((start + i) mod capacity)) [0..<valid])"

section \<open>The display-side copy: \<open>fillSnapshot\<close> and \<open>requestAudioDump\<close>\<close>

definition fillSnapshot ::
  "MiniMetersCloneAudioProcessor \<Rightarrow> SharedDataSnapshot \<Rightarrow> bool \<Rightarrow> SharedDataSnapshot" where
  "fillSnapshot p snapshot includeAudioHistory =
     (let sh = shared p in
      if lock sh then snapshot
      else
        let bucketCapacity = length (waveformMin sh 0);
            validWaveform = jmin (waveformFilled sh) bucketCapacity;
            bucket = (\<lambda>buf. if validWaveform > 0
                            then ring_readout buf (waveformWriteIndex sh) validWaveform bucketCapacity
                            else []);
            oscValid = jmin (length (oscilloscopeBuffer sh)) (oscilloscopeFilled sh);
            hasSpectrogram = (getNumSamples (spectrogramHistory sh) > 0);
            loudnessValid = jmin (length (SharedState.loudnessHistory sh)) (loudnessHistoryFilled sh)
        in snapshot
           \<lparr>SharedDataSnapshot.writePosition := SharedState.writePosition sh,
            bufferWrapped := hasWrapped sh,
            SharedDataSnapshot.audioHistory :=
              (if includeAudioHistory \<and> getNumSamples (SharedState.audioHistory sh) > 0
               then SharedState.audioHistory sh
               else if \<not> includeAudioHistory then []
               else SharedDataSnapshot.audioHistory snapshot),
            SharedDataSnapshot.waveformSamplesPerBucket := SharedState.waveformSamplesPerBucket sh,
            waveformLeftMins := bucket (waveformMin sh 0),
            waveformLeftMaxs := bucket (waveformMax sh 0),
            waveformRightMins := bucket (waveformMin sh 1),
            waveformRightMaxs := bucket (waveformMax sh 1),
            waveformLeftLowBand := bucket (waveformBandEnergy sh 0 0),
            waveformLeftMidBand := bucket (waveformBandEnergy sh 0 1),
            waveformLeftHighBand := bucket (waveformBandEnergy sh 0 2),
            waveformRightLowBand := bucket (waveformBandEnergy sh 1 0),
            waveformRightMidBand := bucket (waveformBandEnergy sh 1 1),
            waveformRightHighBand := bucket (waveformBandEnergy sh 1 2),
            oscilloscope :=
              (if oscValid > 0
               then ring_readout (oscilloscopeBuffer sh) (oscilloscopeWriteIndex sh) oscValid
                      (length (oscilloscopeBuffer sh))
               else []),
            SharedDataSnapshot.spectrum := spectrumAverages sh,
            spectrogram :=
              (if hasSpectrogram then spectrogramHistory sh else spectrogram snapshot),
            SharedDataSnapshot.spectrogramWritePosition :=
              (if hasSpectrogram then SharedState.spectrogramWritePosition sh
               else SharedDataSnapshot.spectrogramWritePosition snapshot),
            SharedDataSnapshot.spectrogramWrapped :=
              (if hasSpectrogram then SharedState.spectrogramWrapped sh
               else SharedDataSnapshot.spectrogramWrapped snapshot),
            SharedDataSnapshot.lissajousCount := SharedState.lissajousCount sh,
            lissajous :=
              fold (\<lambda>i points. points[i := lissajousPoints sh ! i])
                [0..<SharedState.lissajousCount sh] (lissajous snapshot),
            SharedDataSnapshot.momentaryLufs := SharedState.momentaryLufs sh,
            SharedDataSnapshot.shortTermLufs := SharedState.shortTermLufs sh,
            SharedDataSnapshot.integratedLufs := SharedState.integratedLufs sh,
            SharedDataSnapshot.loudnessRange := SharedState.loudnessRange sh,
            SharedDataSnapshot.maxMomentaryLufs := maxMomentary sh,
            SharedDataSnapshot.maxShortTermLufs := maxShortTerm sh,
            SharedDataSnapshot.rmsFast := SharedState.rmsFast sh,
            SharedDataSnapshot.rmsSlow := SharedState.rmsSlow sh,
            SharedDataSnapshot.correlation := SharedState.correlation sh,
            SharedDataSnapshot.stereoWidth := SharedState.stereoWidth sh,
            SharedDataSnapshot.leftRms := SharedState.leftRms sh,
            SharedDataSnapshot.rightRms := SharedState.rightRms sh,
            SharedDataSnapshot.midRms := SharedState.midRms sh,
            SharedDataSnapshot.sideRms := SharedState.sideRms sh,
            SharedDataSnapshot.balanceDb := SharedState.balanceDb sh,
            SharedDataSnapshot.vuNeedleL := SharedState.vuNeedleL sh,
            SharedDataSnapshot.vuNeedleR := SharedState.vuNeedleR sh,
            clipLeft := clippedL sh,
            clipRight := clippedR sh,
            peakLeft := peakL p,
            peakRight := peakR p,
            SharedDataSnapshot.sampleRate := getSampleRate p,
            SharedDataSnapshot.loudnessHistoryInterval := SharedState.loudnessHistoryInterval sh,
            SharedDataSnapshot.transport := SharedState.transport sh,
            SharedDataSnapshot.loudnessHistory :=
              (if loudnessValid > 0
               then ring_readout (SharedState.loudnessHistory sh) (loudnessHistoryWrite sh)
                      loudnessValid (length (SharedState.loudnessHistory sh))
               else [])\<rparr>)"

text \<open>The two reference parameters \<open>dest\<close> and \<open>hasWrapped\<close> are returned as a pair.\<close>

definition requestAudioDump ::
  "MiniMetersCloneAudioProcessor \<Rightarrow> AudioBuffer \<Rightarrow> bool \<Rightarrow> AudioBuffer \<times> bool" where
  "requestAudioDump p dest hasWrapped' =
     (let sh = shared p in
      if lock sh then (dest, hasWrapped')
      else (SharedState.audioHistory sh, hasWrapped sh))"

section \<open>\<open>resetLoudnessStatistics\<close>\<close>

text \<open>
  The blocking \<open>ScopedLockType\<close> is entered and left inside the call; the lock flag after
  the call is the one before it.
\<close>

definition resetLoudnessStatistics ::
  "MiniMetersCloneAudioProcessor \<Rightarrow> MiniMetersCloneAudioProcessor" where
  "resetLoudnessStatistics p =
     p\<lparr>MiniMetersCloneAudioProcessor.maxMomentaryLufs := - 100,
       MiniMetersCloneAudioProcessor.maxShortTermLufs := - 100,
       peakL := 0,
       peakR := 0,
       shared := (shared p)
         \<lparr>maxMomentary := - 100,
          maxShortTerm := - 100,
          clippedL := False,
          clippedR := False,
          loudnessHistoryWrite := 0,
          loudnessHistoryFilled := 0,
          SharedState.loudnessHistory :=
            map (\<lambda>_. - 100) (SharedState.loudnessHistory (shared p))\<rparr>\<rparr>"

section \<open>\<open>processBlock\<close>: the ring writes\<close>

text \<open>
  The block handed to \<open>processBlock\<close>: at most the first two channels are used. A mono
  block reads its only channel for both sides, an empty layout reads zero.
\<close>

definition numCh :: "AudioBuffer \<Rightarrow> nat" where
  "numCh buffer = jmin 2 (getNumChannels buffer)"

definition sampleL :: "AudioBuffer \<Rightarrow> nat \<Rightarrow> real" where
  "sampleL buffer i = (if numCh buffer > 0 then buffer ! 0 ! i else 0)"

definition sampleR :: "AudioBuffer \<Rightarrow> nat \<Rightarrow> real" where
  "sampleR buffer i = (if numCh buffer > 1 then buffer ! 1 ! i else sampleL buffer i)"

subsection \<open>Oscilloscope ring\<close>

definition oscilloscope_write :: "SharedState \<Rightarrow> real \<Rightarrow> SharedState" where
  "oscilloscope_write sh v =
     (let oscSize = length (oscilloscopeBuffer sh) in
      sh\<lparr>oscilloscopeBuffer := (oscilloscopeBuffer sh)[oscilloscopeWriteIndex sh := v],
         oscilloscopeWriteIndex := (oscilloscopeWriteIndex sh + 1) mod oscSize,
         oscilloscopeFilled := jmin oscSize (oscilloscopeFilled sh + 1)\<rparr>)"

definition processBlock_oscilloscope :: "SharedState \<Rightarrow> AudioBuffer \<Rightarrow> SharedState" where
  "processBlock_oscilloscope sh buffer =
     (if oscilloscopeBuffer sh = [] then sh
      else fold (\<lambda>i sh. oscilloscope_write sh (0.5 * (sampleL buffer i + sampleR buffer i)))
             [0..<getNumSamples buffer] sh)"

subsection \<open>Loudness-history ring of the shared aggregate\<close>

definition loudnessHistory_write :: "SharedState \<Rightarrow> real \<Rightarrow> SharedState" where
  "loudnessHistory_write sh v =
     (let capacity = length (SharedState.loudnessHistory sh) in
      sh\<lparr>SharedState.loudnessHistory :=
           (SharedState.loudnessHistory sh)[loudnessHistoryWrite sh := v],
         loudnessHistoryWrite := (loudnessHistoryWrite sh + 1) mod capacity,
         loudnessHistoryFilled := jmin capacity (loudnessHistoryFilled sh + 1)\<rparr>)"

text \<open>
  \<open>historyUpdates\<close> is the number of 50 ms intervals that ended inside the block; each of
  them stores the block's short-term loudness.
\<close>

definition processBlock_loudnessHistory :: "SharedState \<Rightarrow> nat \<times> real \<Rightarrow> SharedState" where
  "processBlock_loudnessHistory sh u =
     (let historyUpdates = fst u; shortTermLufs' = snd u in
      if historyUpdates > 0 \<and> SharedState.loudnessHistory sh \<noteq> []
      then fold (\<lambda>i sh. loudnessHistory_write sh shortTermLufs') [0..<historyUpdates] sh
      else sh)"

subsection \<open>Waveform bucket rings\<close>

text \<open>
  One input sample of the waveform loop: the two channel samples and the outputs of the
  JUCE band filters for it, \<open>wBand ch band\<close> with band 0 low, 1 mid (the cascade), 2 high.
\<close>

record WaveformInput =
  wSampleL :: real
  wSampleR :: real
  wBand :: "nat \<Rightarrow> nat \<Rightarrow> real"

text \<open>
  The loop keeps its cursor and accumulators in locals and writes them back after the last
  sample; nothing else reads them in between, so the model updates the members directly.
\<close>

definition waveform_sample :: "SharedState \<Rightarrow> WaveformInput \<Rightarrow> SharedState" where
  "waveform_sample sh x =
     (let currentMinL = jmin (waveformCurrentMin sh 0) (wSampleL x);
          currentMaxL = jmax (waveformCurrentMax sh 0) (wSampleL x);
          currentMinR = jmin (waveformCurrentMin sh 1) (wSampleR x);
          currentMaxR = jmax (waveformCurrentMax sh 1) (wSampleR x);
          bandAccum = (\<lambda>ch band. waveformBandAccum sh ch band + wBand x ch band * wBand x ch band);
          sampleCounter = waveformSampleCounter sh + 1;
          bucketIndex = waveformWriteIndex sh;
          bucketCapacity = length (waveformMin sh 0)
      in if sampleCounter \<ge> SharedState.waveformSamplesPerBucket sh
         then
           let invSamples = 1 / real (SharedState.waveformSamplesPerBucket sh) in
           sh\<lparr>waveformMin := (waveformMin sh)
                  (0 := (waveformMin sh 0)[bucketIndex := currentMinL],
                   1 := (waveformMin sh 1)[bucketIndex := currentMinR]),
              waveformMax := (waveformMax sh)
                  (0 := (waveformMax sh 0)[bucketIndex := currentMaxL],
                   1 := (waveformMax sh 1)[bucketIndex := currentMaxR]),
              waveformBandEnergy :=
                (\<lambda>ch band. (waveformBandEnergy sh ch band)
                    [bucketIndex := sqrt (jmax 0 (bandAccum ch band * invSamples))]),
              waveformBandAccum := (\<lambda>ch band. 0),
              waveformWriteIndex := (bucketIndex + 1) mod bucketCapacity,
              waveformFilled := jmin bucketCapacity (waveformFilled sh + 1),
              waveformSampleCounter := 0,
              waveformCurrentMin := (\<lambda>ch. 1),
              waveformCurrentMax := (\<lambda>ch. - 1)\<rparr>
         else
           sh\<lparr>waveformBandAccum := bandAccum,
              waveformSampleCounter := sampleCounter,
              waveformCurrentMin := (waveformCurrentMin sh)(0 := currentMinL, 1 := currentMinR),
              waveformCurrentMax := (waveformCurrentMax sh)(0 := currentMaxL, 1 := currentMaxR)\<rparr>)"

definition processBlock_waveform :: "SharedState \<Rightarrow> WaveformInput list \<Rightarrow> SharedState" where
  "processBlock_waveform sh xs =
     (if SharedState.waveformSamplesPerBucket sh > 0 \<and> waveformMin sh 0 \<noteq> []
      then fold (\<lambda>x sh. waveform_sample sh x) xs sh
      else sh)"

subsection \<open>Spectrum and spectrogram ring\<close>

text \<open>\<open>std::vector::resize (n, 0.0f)\<close>.\<close>

definition resize :: "real list \<Rightarrow> nat \<Rightarrow> real list" where
  "resize xs n = take n xs @ replicate (n - length xs) 0"

text \<open>
  The body of \<open>if (spectrumFrameUpdated)\<close>: the frame becomes the published spectrum, is
  blended into the running average with factor 0.6, and is written as one column of the
  spectrogram history.
\<close>

definition processBlock_spectrogram :: "SharedState \<Rightarrow> real list \<Rightarrow> SharedState" where
  "processBlock_spectrogram sh frame =
     (let averages = (if length (spectrumAverages sh) \<noteq> length frame
                      then resize (spectrumAverages sh) (length frame)
                      else spectrumAverages sh);
          smoothing = 0.6;
          averages' = map (\<lambda>i. smoothing * averages ! i + (1 - smoothing) * frame ! i)
                        [0..<length frame];
          history = spectrogramHistory sh;
          width = getNumSamples history;
          position = SharedState.spectrogramWritePosition sh;
          bins = jmin (length frame) (getNumChannels history);
          position' = (position + 1) mod width
      in if width > 0
         then sh\<lparr>SharedState.spectrum := frame,
                 spectrumAverages := averages',
                 spectrogramHistory :=
                   fold (\<lambda>bin h. h[bin := (h ! bin)[position := frame ! bin]]) [0..<bins] history,
                 SharedState.spectrogramWritePosition := position',
                 SharedState.spectrogramWrapped :=
                   (if position' = 0 then True else SharedState.spectrogramWrapped sh)\<rparr>
         else sh\<lparr>SharedState.spectrum := frame, spectrumAverages := averages'\<rparr>)"

text \<open>
  The reader of the spectrogram ring is \<open>SpectrogramMeter::refreshImage\<close>
  (\<open>Spectrogram.cpp\<close>): it has no filled counter, the number of available columns is
  derived from the \<open>wrapped\<close> flag, and the columns are put in order per frequency bin.
\<close>

definition availableColumns :: "SharedDataSnapshot \<Rightarrow> nat" where
  "availableColumns snapshot =
     (let totalColumns = getNumSamples (spectrogram snapshot);
          wrappedHistory = (SharedDataSnapshot.spectrogramWrapped snapshot \<and> totalColumns > 0)
      in if wrappedHistory then totalColumns
         else jlimit 0 totalColumns (SharedDataSnapshot.spectrogramWritePosition snapshot))"

definition orderedColumns :: "SharedDataSnapshot \<Rightarrow> AudioBuffer" where
  "orderedColumns snapshot =
     (let spectrogramData = spectrogram snapshot;
          totalColumns = getNumSamples spectrogramData;
          bins = getNumChannels spectrogramData;
          writePosition' = SharedDataSnapshot.spectrogramWritePosition snapshot;
          wrappedHistory = (SharedDataSnapshot.spectrogramWrapped snapshot \<and> totalColumns > 0);
          startIndex = (if wrappedHistory then writePosition'
                        else jmax 0 (jmin writePosition' totalColumns))
      in if bins \<le> 0 \<or> totalColumns \<le> 0 then []
         else if availableColumns snapshot \<le> 0 then []
         else map (\<lambda>bin.
                if wrappedHistory
                then map (\<lambda>column. spectrogramData ! bin ! ((startIndex + column) mod totalColumns))
                       [0..<availableColumns snapshot]
                else take (availableColumns snapshot) (spectrogramData ! bin))
              [0..<bins])"

section \<open>Loudness engine\<close>

definition energyToLoudness :: "real \<Rightarrow> real" where
  "energyToLoudness energy = - 0.691 + 10 * log 10 (jmax (1 / 10 ^ 12) energy)"

subsection \<open>Loudness range\<close>

text \<open>
  \<open>std::remove_if\<close> keeps the elements that do not satisfy the predicate, in order, at the
  front of the range; \<open>std::sort\<close> puts a range in ascending order. What lies behind the
  new end of the range is not read again.
\<close>

definition percentile :: "real list \<Rightarrow> nat \<Rightarrow> real \<Rightarrow> real" where
  "percentile scratch valid p =
     (let index = real (valid - 1) * p;
          lower = nat \<lfloor>index\<rfloor>;
          upper = jmin (valid - 1) (lower + 1);
          fraction = index - real lower;
          lowVal = scratch ! lower;
          highVal = scratch ! upper
      in lowVal + (highVal - lowVal) * fraction)"

definition updateLoudnessRange ::
  "MiniMetersCloneAudioProcessor \<Rightarrow> MiniMetersCloneAudioProcessor" where
  "updateLoudnessRange p =
     (if shortTermHistoryFilled p < 2 \<or> shortTermHistoryBuffer p = []
      then p\<lparr>loudnessRangeValue := 0\<rparr>
      else
        let capacity = length (shortTermHistoryBuffer p);
            count = shortTermHistoryFilled p;
            start = (shortTermHistoryWriteIndex p + capacity - count) mod capacity;
            scratch0 = (if length (shortTermScratch p) < count
                        then resize (shortTermScratch p) capacity
                        else shortTermScratch p);
            scratch1 = fold (\<lambda>i scratch.
                               scratch[i := shortTermHistoryBuffer p ! ((start + i) mod capacity)])
                         [0..<count] scratch0;
            gatingThreshold = integratedLoudness p - 20;
            kept = filter (\<lambda>v. \<not> v < gatingThreshold) (take count scratch1);
            valid = length kept;
            scratch2 = kept @ drop valid scratch1
        in if valid < 2
           then p\<lparr>shortTermScratch := scratch2, loudnessRangeValue := 0\<rparr>
           else
             let scratch3 = sort (take valid scratch2) @ drop valid scratch2;
                 low = percentile scratch3 valid 0.10;
                 high = percentile scratch3 valid 0.95
             in p\<lparr>shortTermScratch := scratch3, loudnessRangeValue := jmax 0 (high - low)\<rparr>)"

definition pushShortTermHistoryValue ::
  "MiniMetersCloneAudioProcessor \<Rightarrow> real \<Rightarrow> MiniMetersCloneAudioProcessor" where
  "pushShortTermHistoryValue p v =
     (if shortTermHistoryBuffer p = [] then p
      else
        let v' = jlimit (- 100) 10 v;
            capacity = length (shortTermHistoryBuffer p)
        in p\<lparr>shortTermHistoryBuffer := (shortTermHistoryBuffer p)[shortTermHistoryWriteIndex p := v'],
             shortTermHistoryWriteIndex := (shortTermHistoryWriteIndex p + 1) mod capacity,
             shortTermHistoryFilled := jmin capacity (shortTermHistoryFilled p + 1)\<rparr>)"

subsection \<open>Integrated loudness\<close>

text \<open>
  The first loop of \<open>updateIntegratedMetrics\<close>: the stored block energies are read oldest
  first, and those louder than the absolute gate are packed at the front of the scratch
  vector. The result is the scratch vector and the number \<open>valid\<close> of packed energies.
\<close>

definition absoluteGate :: "MiniMetersCloneAudioProcessor \<Rightarrow> real list \<times> nat" where
  "absoluteGate p =
     (let capacity = length (integratedBlockEnergies p);
          count = integratedFilled p;
          start = (integratedWriteIndex p + capacity - count) mod capacity;
          scratch0 = (if length (integratedScratch p) < count
                      then resize (integratedScratch p) capacity
                      else integratedScratch p)
      in fold (\<lambda>i (scratch, valid).
                 let energy = integratedBlockEnergies p ! ((start + i) mod capacity);
                     loudness = energyToLoudness energy
                 in if loudness > - 70 then (scratch[valid := energy], valid + 1)
                    else (scratch, valid))
           [0..<count] (scratch0, 0))"

text \<open>The second loop: the sum of the packed energies.\<close>

definition scratchSum :: "real list \<Rightarrow> nat \<Rightarrow> real" where
  "scratchSum scratch valid = fold (\<lambda>i sum. sum + scratch ! i) [0..<valid] 0"

text \<open>The third loop: sum and number of the packed energies at or above the relative gate.\<close>

definition relativeGated :: "real list \<Rightarrow> nat \<Rightarrow> real \<Rightarrow> real \<times> nat" where
  "relativeGated scratch valid relativeGate =
     fold (\<lambda>i (gatedSum, gatedCount).
             let loudness = energyToLoudness (scratch ! i)
             in if loudness \<ge> relativeGate then (gatedSum + scratch ! i, gatedCount + 1)
                else (gatedSum, gatedCount))
       [0..<valid] (0, 0)"

definition updateIntegratedMetrics ::
  "MiniMetersCloneAudioProcessor \<Rightarrow> MiniMetersCloneAudioProcessor" where
  "updateIntegratedMetrics p =
     (if integratedFilled p = 0 \<or> integratedBlockEnergies p = []
      then updateLoudnessRange (p\<lparr>integratedLoudness := - 100\<rparr>)
      else
        let (scratch, valid) = absoluteGate p in
        if valid = 0
        then updateLoudnessRange (p\<lparr>integratedScratch := scratch, integratedLoudness := - 100\<rparr>)
        else
          let sum = scratchSum scratch valid;
              averageEnergy = sum / real valid;
              averageLoudness = energyToLoudness averageEnergy;
              relativeGate = averageLoudness - 10;
              (gatedSum, gatedCount) = relativeGated scratch valid relativeGate
          in updateLoudnessRange
               (p\<lparr>integratedScratch := scratch,
                  integratedLoudness :=
                    (if gatedCount = 0 then averageLoudness
                     else energyToLoudness (gatedSum / real gatedCount))\<rparr>))"

definition pushIntegratedBlock ::
  "MiniMetersCloneAudioProcessor \<Rightarrow> real \<Rightarrow> MiniMetersCloneAudioProcessor" where
  "pushIntegratedBlock p energy =
     (if integratedBlockEnergies p = [] then p
      else
        let energy' = jmax (1 / 10 ^ 12) energy;
            capacity = length (integratedBlockEnergies p)
        in updateIntegratedMetrics
             (p\<lparr>integratedBlockEnergies := (integratedBlockEnergies p)[integratedWriteIndex p := energy'],
                integratedWriteIndex := (integratedWriteIndex p + 1) mod capacity,
                integratedFilled := jmin capacity (integratedFilled p + 1)\<rparr>))"

section \<open>Ballistics\<close>

definition setBallistics ::
  "MiniMetersCloneAudioProcessor \<Rightarrow> real \<Rightarrow> real \<Rightarrow> MiniMetersCloneAudioProcessor" where
  "setBallistics p riseMs fallMs =
     (let a = (\<lambda>ms. exp (- 1 / ((ms * 0.001) * MiniMetersCloneAudioProcessor.sampleRate p)))
      in p\<lparr>peakRiseCoeff := a riseMs, peakFallCoeff := a fallMs, rmsCoeff := a 300\<rparr>)"

text \<open>The samples of one channel that the loops \<open>for (i = 0; i < n; ++i)\<close> read.\<close>

definition channel :: "AudioBuffer \<Rightarrow> nat \<Rightarrow> real list" where
  "channel buffer ch = map (\<lambda>i. buffer ! ch ! i) [0..<getNumSamples buffer]"

text \<open>The per-sample peak envelope of one channel; the local starts at 0 in every block.\<close>

definition peakEnvelope :: "real \<Rightarrow> real \<Rightarrow> real list \<Rightarrow> real" where
  "peakEnvelope rise fall samples =
     fold (\<lambda>x pk. let a = \<bar>x\<bar> in
                   if a > pk then rise * pk + (1 - rise) * a
                   else fall * pk + (1 - fall) * a)
       samples 0"

definition squareSum :: "real list \<Rightarrow> real" where
  "squareSum samples = fold (\<lambda>x acc. acc + x * x) samples 0"

definition rmsBlockL :: "AudioBuffer \<Rightarrow> real" where
  "rmsBlockL buffer =
     (if numCh buffer \<ge> 1
      then sqrt (squareSum (channel buffer 0) / real (jmax 1 (getNumSamples buffer)))
      else 0)"

definition rmsBlockR :: "AudioBuffer \<Rightarrow> real" where
  "rmsBlockR buffer =
     (if numCh buffer \<ge> 2
      then sqrt (squareSum (channel buffer 1) / real (jmax 1 (getNumSamples buffer)))
      else rmsBlockL buffer)"

text \<open>The peak and RMS part of \<open>processBlock\<close>, up to the four atomic stores.\<close>

definition processBlock_ballistics ::
  "MiniMetersCloneAudioProcessor \<Rightarrow> AudioBuffer \<Rightarrow> MiniMetersCloneAudioProcessor" where
  "processBlock_ballistics p buffer =
     (let pL = (if numCh buffer \<ge> 1
                then peakEnvelope (peakRiseCoeff p) (peakFallCoeff p) (channel buffer 0) else 0);
          pR = (if numCh buffer \<ge> 2
                then peakEnvelope (peakRiseCoeff p) (peakFallCoeff p) (channel buffer 1) else 0);
          prevRmsL = rmsL p;
          prevRmsR = rmsR p
      in p\<lparr>rmsL := rmsCoeff p * prevRmsL + (1 - rmsCoeff p) * rmsBlockL buffer,
           rmsR := rmsCoeff p * prevRmsR + (1 - rmsCoeff p) * rmsBlockR buffer,
           peakL := pL,
           peakR := pR\<rparr>)"

text \<open>
  The fast and slow RMS energies of the same function. \<open>std::pow (coeff, (float) n)\<close> with
  the sample count \<open>n\<close> as exponent is the \<open>n\<close>-th power.
\<close>

definition blockEnergyAvg :: "AudioBuffer \<Rightarrow> real" where
  "blockEnergyAvg buffer =
     (let accL = (if numCh buffer \<ge> 1 then squareSum (channel buffer 0) else 0);
          accR = (if numCh buffer \<ge> 2 then squareSum (channel buffer 1) else 0)
      in (accL + accR) / real (jmax 1 (getNumSamples buffer) * jmax 1 (numCh buffer)))"

definition processBlock_rmsEnergies ::
  "MiniMetersCloneAudioProcessor \<Rightarrow> AudioBuffer \<Rightarrow> MiniMetersCloneAudioProcessor" where
  "processBlock_rmsEnergies p buffer =
     (let n = getNumSamples buffer;
          blockFastCoeff = rmsFastCoeff p ^ n;
          blockSlowCoeff = rmsSlowCoeff p ^ n
      in p\<lparr>rmsFastEnergy := blockFastCoeff * rmsFastEnergy p + (1 - blockFastCoeff) * blockEnergyAvg buffer,
           rmsSlowEnergy := blockSlowCoeff * rmsSlowEnergy p + (1 - blockSlowCoeff) * blockEnergyAvg buffer\<rparr>)"

section \<open>Stereo correlation\<close>



section \<open>Spectral analyser: the input accumulator\<close>

text \<open>
  One pass of the loop over the block's mono samples. \<open>fftSize\<close> is \<open>fft.getSize()\<close>. The
  windowing and the transform are JUCE's; a frame is recorded as the content of the
  accumulator that is copied into the transform's scratch buffer. \<open>std::rotate (first,
  middle, last)\<close> rotates to the left until \<open>middle\<close> is first.
\<close>

definition fftAccumulate ::
  "nat \<Rightarrow> MiniMetersCloneAudioProcessor \<times> real list list \<Rightarrow> real
     \<Rightarrow> MiniMetersCloneAudioProcessor \<times> real list list" where
  "fftAccumulate fftSize pf x =
     (let p = fst pf;
          frames = snd pf;
          input = (fftInput p)[fftInputPos p := x];
          pos = fftInputPos p + 1
      in if pos \<ge> fftSize
         then (p\<lparr>fftInput := rotate (fftSize - fftHop p) input, fftInputPos := fftHop p\<rparr>,
               frames @ [input])
         else (p\<lparr>fftInput := input, fftInputPos := pos\<rparr>, frames))"

definition processBlock_fft ::
  "nat \<Rightarrow> MiniMetersCloneAudioProcessor \<Rightarrow> real list
     \<Rightarrow> MiniMetersCloneAudioProcessor \<times> real list list" where
  "processBlock_fft fftSize p monoForFft = fold (\<lambda>x pf. fftAccumulate fftSize pf x) monoForFft (p, [])"

section \<open>\<open>prepareToPlay\<close>\<close>

text \<open>
  The \<open>juce::dsp::ProcessSpec\<close> that \<open>prepareToPlay\<close> hands to the JUCE filters; it is the
  only place where the block size is used. The function is \<open>void\<close>, has no early return
  and raises nothing: the model returns the prepared object together with that spec.
  The design of the filter coefficients is JUCE's and is not modelled.
\<close>

record ProcessSpec =
  specSampleRate :: real
  maximumBlockSize :: nat
  numChannels :: nat

definition prepareToPlay ::
  "MiniMetersCloneAudioProcessor \<Rightarrow> real \<Rightarrow> int \<Rightarrow> MiniMetersCloneAudioProcessor \<times> ProcessSpec" where
  "prepareToPlay p0 sr samplesPerBlock =
     (let p = setBallistics (p0\<lparr>MiniMetersCloneAudioProcessor.sampleRate := sr\<rparr>) 10 300;
          sampleRate' = MiniMetersCloneAudioProcessor.sampleRate p;
          historySeconds = 10;
          historySamples = nat (jmax 1 (std_round (sampleRate' * historySeconds)));
          integratedBlocks = nat (jmax 1 (std_round (600 / 0.4)));
          intervalSamples = nat (jmax 1 (std_round (sampleRate' * kLoudnessHistoryIntervalSeconds)));
          capacity = nat (jmax 1 (std_round (kLoudnessHistorySpanSeconds / kLoudnessHistoryIntervalSeconds)));
          fftSize = fft_getSize;
          bins = fftSize div 2;
          maxSpectrogramSeconds = 3;
          hopSamples = jmax 1 (fftSize div 4);
          historyWidth = nat (jmax 1 \<lceil>maxSpectrogramSeconds * sr / real hopSamples\<rceil>);
          sh = (shared p)
            \<lparr>SharedState.audioHistory := clearedBuffer 2 historySamples,
             SharedState.writePosition := 0,
             hasWrapped := False,
             SharedState.waveformSamplesPerBucket := jmax 1 (historySamples div kWaveformResolution),
             waveformMin := (\<lambda>ch. replicate kWaveformResolution 0),
             waveformMax := (\<lambda>ch. replicate kWaveformResolution 0),
             waveformCurrentMin := (\<lambda>ch. 1),
             waveformCurrentMax := (\<lambda>ch. - 1),
             waveformBandEnergy := (\<lambda>ch band. replicate kWaveformResolution 0),
             waveformBandAccum := (\<lambda>ch band. 0),
             waveformWriteIndex := 0,
             waveformFilled := 0,
             waveformSampleCounter := 0,
             oscilloscopeBuffer := replicate kOscilloscopeBufferSize 0,
             oscilloscopeWriteIndex := 0,
             oscilloscopeFilled := 0,
             SharedState.spectrum := resize (SharedState.spectrum (shared p)) bins,
             spectrumAverages := resize (spectrumAverages (shared p)) bins,
             spectrogramHistory := clearedBuffer bins historyWidth,
             SharedState.spectrogramWritePosition := 0,
             SharedState.spectrogramWrapped := False,
             SharedState.lissajousCount := 0,
             SharedState.momentaryLufs := - 100,
             SharedState.shortTermLufs := - 100,
             SharedState.integratedLufs := - 100,
             SharedState.loudnessRange := 0,
             maxMomentary := - 100,
             maxShortTerm := - 100,
             SharedState.rmsFast := 0,
             SharedState.rmsSlow := 0,
             SharedState.correlation := 0,
             SharedState.stereoWidth := 0,
             SharedState.vuNeedleL := 0,
             SharedState.vuNeedleR := 0,
             clippedL := False,
             clippedR := False,
             SharedState.loudnessHistoryInterval :=
               (if sampleRate' > 0 then real intervalSamples / sampleRate' else 0),
             SharedState.loudnessHistory := replicate capacity (- 100),
             loudnessHistoryWrite := 0,
             loudnessHistoryFilled := 0\<rparr>
      in (p\<lparr>integratedBlockSamples := nat (jmax 1 (std_round (sampleRate' * 0.4))),
            integratedBlockEnergies := replicate integratedBlocks (1 / 10 ^ 9),
            integratedScratch := resize (integratedScratch p) integratedBlocks,
            integratedEnergyAccumulator := 0,
            integratedSampleCounter := 0,
            integratedWriteIndex := 0,
            integratedFilled := 0,
            integratedLoudness := - 100,
            loudnessHistoryIntervalSamples := intervalSamples,
            loudnessHistorySampleCounter := 0,
            loudnessHistoryCapacity := capacity,
            shortTermHistoryBuffer := replicate capacity (- 100),
            shortTermHistoryWriteIndex := 0,
            shortTermHistoryFilled := 0,
            shortTermScratch := resize (shortTermScratch p) capacity,
            loudnessRangeValue := 0,
            MiniMetersCloneAudioProcessor.maxMomentaryLufs := - 100,
            MiniMetersCloneAudioProcessor.maxShortTermLufs := - 100,
            shared := sh,
            fftSpectrumFrame := replicate (fftSize div 2) 0,
            fftInput := replicate fftSize 0,
            fftScratch := replicate (fftSize * 2) 0,
            fftInputPos := 0,
            fftHop := jmax 1 (fftSize div 4),
            momentaryEnergy := 1 / 10 ^ 9,
            shortTermEnergy := 1 / 10 ^ 9,
            rmsFastEnergy := 1 / 10 ^ 9,
            rmsSlowEnergy := 1 / 10 ^ 9,
            vuEnergyL := 0,
            vuEnergyR := 0,
            momentaryCoeff := exp (- 1 / (0.4 * sampleRate')),
            shortTermCoeff := exp (- 1 / (3 * sampleRate')),
            rmsFastCoeff := exp (- 1 / (0.3 * sampleRate')),
            rmsSlowCoeff := exp (- 1 / (1 * sampleRate')),
            vuCoeff := exp (- 1 / (0.3 * sampleRate'))\<rparr>,
          \<lparr>specSampleRate = sr,
           maximumBlockSize = nat (jmax 1 samplesPerBlock),
           numChannels = 1\<rparr>))"

section \<open>The statements of the specification, in its words\<close>

text \<open>
  Integrated loudness as the specification words it: blocks below the absolute gate of
  -70 are discarded; the mean of the survivors gives a relative gate 10 LU below its
  loudness; the result is the loudness of the mean of the survivors at or above that gate,
  -100 when nothing survives the first stage, and the ungated mean's loudness when the
  second stage leaves nothing.
\<close>

definition spec_integrated :: "real list \<Rightarrow> real" where
  "spec_integrated energies =
     (let surviving = filter (\<lambda>e. \<not> energyToLoudness e < - 70) energies
      in if surviving = [] then - 100
         else
           let mean = sum_list surviving / real (length surviving);
               relativeGate = energyToLoudness mean - 10;
               gated = filter (\<lambda>e. energyToLoudness e \<ge> relativeGate) surviving
           in if gated = [] then energyToLoudness mean
              else energyToLoudness (sum_list gated / real (length gated)))"

text \<open>The same with the first stage keeping only the blocks strictly above the gate.\<close>

definition gated_integrated :: "real list \<Rightarrow> real" where
  "gated_integrated energies =
     (let surviving = filter (\<lambda>e. energyToLoudness e > - 70) energies
      in if surviving = [] then - 100
         else
           let mean = sum_list surviving / real (length surviving);
               relativeGate = energyToLoudness mean - 10;
               gated = filter (\<lambda>e. energyToLoudness e \<ge> relativeGate) surviving
           in if gated = [] then energyToLoudness mean
              else energyToLoudness (sum_list gated / real (length gated)))"

text \<open>
  Loudness range as the specification words it: samples below integrated - 20 are
  discarded; fewer than two remaining give 0; otherwise the range is P95 - P10 of the
  sorted remainder, a percentile being interpolated linearly between the order statistics
  at the floor and at the ceiling of the index (n - 1) p.
\<close>

definition spec_percentile :: "real list \<Rightarrow> real \<Rightarrow> real" where
  "spec_percentile ordered p =
     (let index = real (length ordered - 1) * p;
          lo = nat \<lfloor>index\<rfloor>;
          hi = nat \<lceil>index\<rceil>
      in ordered ! lo + (ordered ! hi - ordered ! lo) * (index - real lo))"

definition spec_loudnessRange :: "real list \<Rightarrow> real \<Rightarrow> real" where
  "spec_loudnessRange samples integrated =
     (let remaining = filter (\<lambda>v. \<not> v < integrated - 20) samples
      in if length remaining < 2 then 0
         else let ordered = sort remaining
              in spec_percentile ordered 0.95 - spec_percentile ordered 0.10)"

text \<open>The samples a ring holds, oldest first: the last \<open>filled\<close> writes.\<close>

definition integratedRing :: "MiniMetersCloneAudioProcessor \<Rightarrow> real list" where
  "integratedRing p =
     ring_readout (integratedBlockEnergies p) (integratedWriteIndex p) (integratedFilled p)
       (length (integratedBlockEnergies p))"

definition shortTermRing :: "MiniMetersCloneAudioProcessor \<Rightarrow> real list" where
  "shortTermRing p =
     ring_readout (shortTermHistoryBuffer p) (shortTermHistoryWriteIndex p) (shortTermHistoryFilled p)
       (length (shortTermHistoryBuffer p))"

section \<open>Rings, abstractly\<close>

text \<open>
  The three statements of the write idiom, on a ring given as its buffer, write index and
  filled count. The rings of the processor are related to it by the views below.
\<close>

definition ring_push :: "'a list \<times> nat \<times> nat \<Rightarrow> 'a \<Rightarrow> 'a list \<times> nat \<times> nat" where
  "ring_push r v =
     (case r of (buf, w, f) \<Rightarrow> (buf[w := v], (w + 1) mod length buf, jmin (length buf) (f + 1)))"

text \<open>A ring is well formed when its cursor is inside the buffer and its count within it.\<close>

definition ring_wf :: "'a list \<Rightarrow> nat \<Rightarrow> nat \<Rightarrow> bool" where
  "ring_wf buf writeIndex filled = (buf \<noteq> [] \<and> writeIndex < length buf \<and> filled \<le> length buf)"

text \<open>The entries one block pushes into the oscilloscope ring: the averages of its samples.\<close>

definition oscEntries :: "AudioBuffer \<Rightarrow> real list" where
  "oscEntries buffer = map (\<lambda>i. 0.5 * (sampleL buffer i + sampleR buffer i)) [0..<getNumSamples buffer]"

text \<open>The entries one block pushes into the loudness history.\<close>

definition historyEntries :: "nat \<times> real \<Rightarrow> real list" where
  "historyEntries u = replicate (fst u) (snd u)"

definition oscRing :: "SharedState \<Rightarrow> real list \<times> nat \<times> nat" where
  "oscRing sh = (oscilloscopeBuffer sh, oscilloscopeWriteIndex sh, oscilloscopeFilled sh)"

definition historyRing :: "SharedState \<Rightarrow> real list \<times> nat \<times> nat" where
  "historyRing sh = (SharedState.loudnessHistory sh, loudnessHistoryWrite sh, loudnessHistoryFilled sh)"

text \<open>
  The spectrogram ring has no filled counter. Seen per frequency bin it is a ring whose
  count is the number of columns the reader takes as available: all of them once the
  position has wrapped, the write position before.
\<close>

definition spectrogramRing :: "nat \<Rightarrow> SharedState \<Rightarrow> real list \<times> nat \<times> nat" where
  "spectrogramRing bin sh =
     (spectrogramHistory sh ! bin,
      SharedState.spectrogramWritePosition sh,
      if SharedState.spectrogramWrapped sh then getNumSamples (spectrogramHistory sh)
      else SharedState.spectrogramWritePosition sh)"

text \<open>The history buffer is rectangular and not empty, and its cursor is inside it.\<close>

definition spectrogram_wf :: "SharedState \<Rightarrow> bool" where
  "spectrogram_wf sh =
     (spectrogramHistory sh \<noteq> []
      \<and> 0 < getNumSamples (spectrogramHistory sh)
      \<and> list_all (\<lambda>row. length row = getNumSamples (spectrogramHistory sh)) (spectrogramHistory sh)
      \<and> SharedState.spectrogramWritePosition sh < getNumSamples (spectrogramHistory sh))"

text \<open>
  The waveform rings are pushed when a bucket closes. \<open>waveformClosings\<close> lists, for a run
  of input samples, the state and the sample at each closing; the values stored at a
  closing are the running extrema and the band RMS that \<open>waveform_sample\<close> computes there.
\<close>

definition bucketCloses :: "SharedState \<Rightarrow> bool" where
  "bucketCloses sh = (waveformSampleCounter sh + 1 \<ge> SharedState.waveformSamplesPerBucket sh)"

fun waveformClosings :: "SharedState \<Rightarrow> WaveformInput list \<Rightarrow> (SharedState \<times> WaveformInput) list" where
  "waveformClosings sh [] = []"
| "waveformClosings sh (x # xs) =
     (if bucketCloses sh then (sh, x) # waveformClosings (waveform_sample sh x) xs
      else waveformClosings (waveform_sample sh x) xs)"

definition bucketMin :: "nat \<Rightarrow> SharedState \<times> WaveformInput \<Rightarrow> real" where
  "bucketMin ch c =
     jmin (waveformCurrentMin (fst c) ch) (if ch = 0 then wSampleL (snd c) else wSampleR (snd c))"

definition bucketMax :: "nat \<Rightarrow> SharedState \<times> WaveformInput \<Rightarrow> real" where
  "bucketMax ch c =
     jmax (waveformCurrentMax (fst c) ch) (if ch = 0 then wSampleL (snd c) else wSampleR (snd c))"

definition bucketBand :: "nat \<Rightarrow> nat \<Rightarrow> SharedState \<times> WaveformInput \<Rightarrow> real" where
  "bucketBand ch band c =
     sqrt (jmax 0 ((waveformBandAccum (fst c) ch band + wBand (snd c) ch band * wBand (snd c) ch band)
                    * (1 / real (SharedState.waveformSamplesPerBucket (fst c)))))"

text \<open>
  The ten bucket vectors have one length (\<open>prepareToPlay\<close> assigns \<open>kWaveformResolution\<close>
  slots to each), the guard of the waveform loop holds, and the cursor is inside.
\<close>

definition waveform_wf :: "SharedState \<Rightarrow> bool" where
  "waveform_wf sh =
     (0 < SharedState.waveformSamplesPerBucket sh
      \<and> waveformMin sh 0 \<noteq> []
      \<and> length (waveformMin sh 1) = length (waveformMin sh 0)
      \<and> length (waveformMax sh 0) = length (waveformMin sh 0)
      \<and> length (waveformMax sh 1) = length (waveformMin sh 0)
      \<and> list_all (\<lambda>ch. list_all (\<lambda>band.
             length (waveformBandEnergy sh ch band) = length (waveformMin sh 0)) [0, 1, 2]) [0, 1]
      \<and> waveformWriteIndex sh < length (waveformMin sh 0)
      \<and> waveformFilled sh \<le> length (waveformMin sh 0))"

definition minRing :: "nat \<Rightarrow> SharedState \<Rightarrow> real list \<times> nat \<times> nat" where
  "minRing ch sh = (waveformMin sh ch, waveformWriteIndex sh, waveformFilled sh)"

definition maxRing :: "nat \<Rightarrow> SharedState \<Rightarrow> real list \<times> nat \<times> nat" where
  "maxRing ch sh = (waveformMax sh ch, waveformWriteIndex sh, waveformFilled sh)"

definition bandRing :: "nat \<Rightarrow> nat \<Rightarrow> SharedState \<Rightarrow> real list \<times> nat \<times> nat" where
  "bandRing ch band sh = (waveformBandEnergy sh ch band, waveformWriteIndex sh, waveformFilled sh)"

section \<open>Example states\<close>

text \<open>A constructed processor whose shared aggregate is held by the audio thread.\<close>

definition contended :: MiniMetersCloneAudioProcessor where
  "contended =
     constructed\<lparr>shared := initialiseSharedState\<lparr>lock := True, SharedState.momentaryLufs := - 23\<rparr>\<rparr>"

text \<open>A processor whose loudness-history ring of capacity 2 is full.\<close>

definition withHistory :: MiniMetersCloneAudioProcessor where
  "withHistory =
     constructed\<lparr>shared := initialiseSharedState
       \<lparr>SharedState.loudnessHistory := [- 14, - 15],
        loudnessHistoryWrite := 0,
        loudnessHistoryFilled := 2\<rparr>\<rparr>"

text \<open>
  A processor with small rings: two oscilloscope slots, two loudness-history slots, one
  waveform bucket per vector, and a spectrogram of two bins by two columns.
\<close>

definition smallRings :: MiniMetersCloneAudioProcessor where
  "smallRings =
     constructed\<lparr>shared := initialiseSharedState
       \<lparr>oscilloscopeBuffer := [0, 0],
        SharedState.loudnessHistory := [- 100, - 100],
        waveformMin := (\<lambda>ch. [0]),
        waveformMax := (\<lambda>ch. [0]),
        waveformBandEnergy := (\<lambda>ch band. [0]),
        spectrogramHistory := [[0, 0], [0, 0]]\<rparr>\<rparr>"

definition twoSamples :: "WaveformInput list" where
  "twoSamples =
     [\<lparr>wSampleL = 1 / 4, wSampleR = - 1 / 2, wBand = (\<lambda>ch band. 0)\<rparr>,
      \<lparr>wSampleL = - 1 / 4, wSampleR = 1 / 2, wBand = (\<lambda>ch band. 1)\<rparr>]"

text \<open>
  States of the loudness engine: a ring holding one block of energy 1; a ring holding one
  block whose loudness is exactly -70; a short-term history of four samples with an
  integrated loudness of -15.
\<close>



definition oneBlock :: MiniMetersCloneAudioProcessor where
  "oneBlock = constructed\<lparr>integratedBlockEnergies := [1], integratedWriteIndex := 0, integratedFilled := 1\<rparr>"

definition boundaryEnergy :: real where
  "boundaryEnergy = 10 powr (- 6.9309)"

definition boundaryBlock :: MiniMetersCloneAudioProcessor where
  "boundaryBlock =
     constructed\<lparr>integratedBlockEnergies := [boundaryEnergy],
                 integratedWriteIndex := 0, integratedFilled := 1\<rparr>"



definition threeSamples :: MiniMetersCloneAudioProcessor where
  "threeSamples =
     constructed\<lparr>shortTermHistoryBuffer := [- 20, - 10, - 30, - 60],
                 shortTermHistoryWriteIndex := 0,
                 shortTermHistoryFilled := 4,
                 integratedLoudness := - 15\<rparr>"




definition prepared :: MiniMetersCloneAudioProcessor where
  "prepared = fst (prepareToPlay constructed 48000 512)"

definition fourOnes :: AudioBuffer where
  "fourOnes = [[1, 1, 1, 1], [1, 1, 1, 1]]"

section \<open>The display-side copy under contention\<close>

text \<open>
  Claim C2. When the try-lock on the shared aggregate fails, \<open>fillSnapshot\<close> returns the
  caller's snapshot with every field as it was, and \<open>requestAudioDump\<close> returns the
  destination buffer and the wrap flag as they were. Both functions return a value for
  every input (they are total, nothing waits), and neither has an error result.
\<close>

theorem snapshot_lock_unavailable:
  "lock (shared p) \<Longrightarrow>
     fillSnapshot p snapshot includeAudioHistory = snapshot
     \<and> requestAudioDump p dest wrappedFlag = (dest, wrappedFlag)"
  by (simp add: fillSnapshot_def requestAudioDump_def)

theorem snapshot_lock_unavailable_witness:
  "lock (shared contended)
   \<and> fillSnapshot contended SharedDataSnapshot_default True = SharedDataSnapshot_default
   \<and> requestAudioDump contended [[1]] False = ([[1]], False)"
  using snapshot_lock_unavailable [of contended SharedDataSnapshot_default True "[[1]]" False]
  by (simp add: contended_def)

text \<open>With the lock free the copy does take place, here for one of the scalar fields.\<close>

lemma snapshot_lock_free:
  "\<not> lock (shared p) \<Longrightarrow>
     SharedDataSnapshot.momentaryLufs (fillSnapshot p snapshot includeAudioHistory)
       = SharedState.momentaryLufs (shared p)"
  by (simp add: fillSnapshot_def Let_def)

section \<open>Resetting the statistics\<close>

text \<open>
  Claim C7, as the code has it. \<open>resetLoudnessStatistics\<close> sets the two max-hold values
  (the members and their published copies) back to -100, clears both clip flags, and
  resets the loudness-history ring of the shared aggregate: write index and filled count
  become 0 and every slot is filled with the sentinel -100. The momentary and short-term
  energy accumulators and the published momentary and short-term readings are unchanged.
\<close>

theorem resetLoudnessStatistics_effect:
  "MiniMetersCloneAudioProcessor.maxMomentaryLufs (resetLoudnessStatistics p) = - 100
   \<and> MiniMetersCloneAudioProcessor.maxShortTermLufs (resetLoudnessStatistics p) = - 100
   \<and> maxMomentary (shared (resetLoudnessStatistics p)) = - 100
   \<and> maxShortTerm (shared (resetLoudnessStatistics p)) = - 100
   \<and> clippedL (shared (resetLoudnessStatistics p)) = False
   \<and> clippedR (shared (resetLoudnessStatistics p)) = False
   \<and> SharedState.loudnessHistory (shared (resetLoudnessStatistics p))
        = replicate (length (SharedState.loudnessHistory (shared p))) (- 100)
   \<and> loudnessHistoryWrite (shared (resetLoudnessStatistics p)) = 0
   \<and> loudnessHistoryFilled (shared (resetLoudnessStatistics p)) = 0
   \<and> momentaryEnergy (resetLoudnessStatistics p) = momentaryEnergy p
   \<and> shortTermEnergy (resetLoudnessStatistics p) = shortTermEnergy p
   \<and> SharedState.momentaryLufs (shared (resetLoudnessStatistics p))
        = SharedState.momentaryLufs (shared p)
   \<and> SharedState.shortTermLufs (shared (resetLoudnessStatistics p))
        = SharedState.shortTermLufs (shared p)"
  by (simp add: resetLoudnessStatistics_def map_replicate_const)

text \<open>
  The ring is not zero-filled: after the reset of a ring that held two samples, its slots
  are not \<open>[0, 0]\<close> (they are \<open>[-100, -100]\<close>).
\<close>

theorem resetLoudnessStatistics_not_zero_filled:
  "SharedState.loudnessHistory (shared (resetLoudnessStatistics withHistory)) \<noteq> [0, 0]"
  by (simp add: resetLoudnessStatistics_def withHistory_def)

section \<open>Ring wrap-around\<close>

lemma jmin_min: "jmin a b = min a b" by (auto simp: jmin_def min_def)
lemma jmax_max: "jmax a b = max a b" by (auto simp: jmax_def max_def)

lemma mod_lt2: "x < 2 * c \<Longrightarrow> (x::nat) mod c = (if x < c then x else x - c)"
  by (simp add: mod_if)

lemma length_ring_readout [simp]: "length (ring_readout buf w f c) = f"
  by (simp add: ring_readout_def Let_def)

lemma ring_readout_nth:
  "i < f \<Longrightarrow> ring_readout buf w f c ! i = buf ! ((w + c - f + i) mod c)"
  by (simp add: ring_readout_def Let_def mod_add_left_eq)

lemma ring_readout_push:
  assumes w: "w < length buf" and f: "f \<le> length buf"
  shows "ring_readout (buf[w := v]) ((w + 1) mod length buf) (min (length buf) (f + 1)) (length buf)
         = drop (f + 1 - min (length buf) (f + 1)) (ring_readout buf w f (length buf) @ [v])"
proof (rule nth_equalityI)
  show "length (ring_readout (buf[w := v]) ((w + 1) mod length buf) (min (length buf) (f + 1)) (length buf)) =
    length (drop (f + 1 - min (length buf) (f + 1)) (ring_readout buf w f (length buf) @ [v]))"
    using assms by simp
next
  fix i assume "i < length (ring_readout (buf[w := v]) ((w + 1) mod length buf) (min (length buf) (f + 1)) (length buf))"
  then have i: "i < min (length buf) (f + 1)" by simp
  define c where "c = length buf"
  have c: "length buf = c" by (simp add: c_def)
  have mc: "min c (f + 1) \<le> c" by simp
  have idx: "((w + 1) mod c + c - min c (f + 1) + i) mod c = (w + 1 + (c - min c (f + 1) + i)) mod c"
  proof -
    have "(w + 1) mod c + c - min c (f + 1) + i = (w + 1) mod c + (c - min c (f + 1) + i)"
      using mc by linarith
    then show ?thesis by (simp only: mod_add_left_eq)
  qed
  have lhs: "ring_readout (buf[w := v]) ((w + 1) mod c) (min c (f + 1)) c ! i
        = (buf[w := v]) ! ((w + 1 + (c - min c (f + 1) + i)) mod c)"
    using i unfolding c by (simp only: ring_readout_nth idx)
  show "ring_readout (buf[w := v]) ((w + 1) mod length buf) (min (length buf) (f + 1)) (length buf) ! i =
         drop (f + 1 - min (length buf) (f + 1)) (ring_readout buf w f (length buf) @ [v]) ! i"
  proof (cases "f < c")
    case True
    then have m: "min c (f + 1) = f + 1" by simp
    have e: "w + 1 + (c - (f + 1) + i) = w + c - f + i" using True by linarith
    have rhs: "drop (f + 1 - (f + 1)) (ring_readout buf w f c @ [v]) ! i
           = (if i < f then buf ! ((w + c - f + i) mod c) else v)"
      using i m by (auto simp add: nth_append ring_readout_nth c)
    show ?thesis
    proof (cases "i < f")
      case True
      have lt: "w + c - f + i < 2 * c" using w \<open>f < c\<close> True unfolding c by linarith
      have "(w + c - f + i) mod c \<noteq> w"
        using w \<open>f < c\<close> True unfolding c mod_lt2[OF lt] by (simp split: if_splits; linarith)
      then show ?thesis using lhs[unfolded m e] rhs True unfolding c m by simp
    next
      case False
      then have "i = f" using i m by simp
      then have "(w + c - f + i) mod c = w" using w \<open>f < c\<close> unfolding c by simp
      then show ?thesis using lhs[unfolded m e] rhs False w unfolding c m by (simp add: c_def)
    qed
  next
    case False
    then have fc: "f = c" using f c by simp
    then have m: "min c (f + 1) = c" by simp
    have e: "w + 1 + (c - c + i) = w + Suc i" by simp
    have ic: "i < c" using i m unfolding c by simp
    have rhs: "drop (f + 1 - c) (ring_readout buf w f c @ [v]) ! i
           = (if Suc i < c then buf ! ((w + Suc i) mod c) else v)"
      using ic by (auto simp add: fc nth_append ring_readout_nth c)
    show ?thesis
    proof (cases "Suc i < c")
      case True
      have lt: "w + Suc i < 2 * c" using w True unfolding c by linarith
      have "(w + Suc i) mod c \<noteq> w"
        using w True unfolding c mod_lt2[OF lt] by (simp split: if_splits; linarith)
      then show ?thesis using lhs[unfolded m e] rhs True unfolding c m by simp
    next
      case False
      then have "Suc i = c" using ic by simp
      then have "(w + Suc i) mod c = w" using w unfolding c by simp
      then show ?thesis using lhs[unfolded m e] rhs False w unfolding c m by (simp add: c_def)
    qed
  qed
qed

lemma drop_drop_append:
  "a \<le> length xs \<Longrightarrow> drop b (drop a xs @ ys) = drop (b + a) (xs @ ys)"
  by simp

lemma ring_fold:
  assumes "w < length buf" "f \<le> length buf"
  shows "case fold (\<lambda>v r. ring_push r v) vs (buf, w, f) of
           (buf', w', f') \<Rightarrow>
             length buf' = length buf \<and> w' < length buf
             \<and> f' = min (length buf) (f + length vs)
             \<and> ring_readout buf' w' f' (length buf)
                 = drop (f + length vs - f') (ring_readout buf w f (length buf) @ vs)"
  using assms
proof (induction vs arbitrary: buf w f)
  case Nil
  then show ?case by simp
next
  case (Cons v vs)
  let ?c = "length buf"
  let ?f1 = "min ?c (f + 1)"
  have pos: "0 < ?c" using Cons.prems(1) by (cases buf) simp_all
  have w1: "(w + 1) mod ?c < length (buf[w := v])" using pos by simp
  have f1: "?f1 \<le> length (buf[w := v])" by simp
  have step: "ring_readout (buf[w := v]) ((w + 1) mod ?c) ?f1 ?c
               = drop (f + 1 - ?f1) (ring_readout buf w f ?c @ [v])"
    using ring_readout_push[OF Cons.prems] .
  obtain buf' w' f' where r: "fold (\<lambda>v r. ring_push r v) vs (buf[w := v], (w + 1) mod ?c, ?f1) = (buf', w', f')"
    by (cases "fold (\<lambda>v r. ring_push r v) vs (buf[w := v], (w + 1) mod ?c, ?f1)") auto
  have ihc: "length buf' = ?c \<and> w' < ?c \<and> f' = min ?c (?f1 + length vs)
    \<and> ring_readout buf' w' f' ?c = drop (?f1 + length vs - f') (ring_readout (buf[w := v]) ((w + 1) mod ?c) ?f1 ?c @ vs)"
    using Cons.IH[OF w1 f1] unfolding r by (auto simp del: drop_append)
  have ih: "length buf' = ?c" "w' < ?c" "f' = min ?c (?f1 + length vs)"
    "ring_readout buf' w' f' ?c = drop (?f1 + length vs - f') (ring_readout (buf[w := v]) ((w + 1) mod ?c) ?f1 ?c @ vs)"
    using ihc by blast+
  have f'eq: "f' = min ?c (f + length (v # vs))" using ih(3) by auto
  have le: "f + 1 - ?f1 \<le> length (ring_readout buf w f ?c @ [v])" by simp
  have "ring_readout buf' w' f' ?c
        = drop (?f1 + length vs - f') (drop (f + 1 - ?f1) (ring_readout buf w f ?c @ [v]) @ vs)"
    using ih(4) step by (simp del: drop_append)
  also have "\<dots> = drop (?f1 + length vs - f' + (f + 1 - ?f1)) ((ring_readout buf w f ?c @ [v]) @ vs)"
    by (rule drop_drop_append[OF le])
  also have "?f1 + length vs - f' + (f + 1 - ?f1) = f + length (v # vs) - f'"
    using ih(3) by auto
  finally have "ring_readout buf' w' f' ?c = drop (f + length (v # vs) - f') (ring_readout buf w f ?c @ v # vs)"
    by (simp del: drop_append)
  then show ?case using r ih(1,2) f'eq by (simp add: ring_push_def jmin_min del: drop_append)
qed

lemma ring_fold_eq:
  assumes "w < length buf" "f \<le> length buf"
    and "fold (\<lambda>v r. ring_push r v) vs (buf, w, f) = (buf', w', f')"
  shows "length buf' = length buf" "w' < length buf" "f' = min (length buf) (f + length vs)"
    "ring_readout buf' w' f' (length buf)
       = drop (f + length vs - f') (ring_readout buf w f (length buf) @ vs)"
  using ring_fold[OF assms(1,2), of vs] unfolding assms(3) by (auto simp del: drop_append)

lemma fold_abstraction:
  assumes "\<And>s v. view (g s v) = h (view s) v"
  shows "view (fold (\<lambda>v s. g s v) vs s) = fold (\<lambda>v r. h r v) vs (view s)"
  using assms by (induction vs arbitrary: s) simp_all


lemma ring_fold_length:
  "length (fst (fold (\<lambda>v r. ring_push r v) vs r)) = length (fst r)"
  by (induction vs arbitrary: r) (auto simp: ring_push_def split: prod.splits)

lemma ring_wrap:
  assumes "w < length buf" "f \<le> length buf" "length vs = length buf + 1"
    and "fold (\<lambda>v r. ring_push r v) vs (buf, w, f) = (buf', w', f')"
  shows "length buf' = length buf \<and> f' = length buf
         \<and> ring_readout buf' w' f' (length buf') = tl vs"
proof -
  note e = ring_fold_eq[OF assms(1,2,4)]
  have f': "f' = length buf" using e(3) assms(3) by simp
  have "drop (f + length vs - f') (ring_readout buf w f (length buf) @ vs) = drop 1 vs"
    unfolding f' assms(3) by simp
  then show ?thesis using e(1,4) f' by (simp add: drop_Suc del: drop_append)
qed

lemma fold_upt_map:
  "fold (\<lambda>i s. g s (e i)) [0..<n] s = fold (\<lambda>v s. g s v) (map e [0..<n]) s"
  by (simp add: fold_map comp_def)

lemma oscilloscope_write_ring: "oscRing (oscilloscope_write sh v) = ring_push (oscRing sh) v"
  by (simp add: oscRing_def oscilloscope_write_def ring_push_def Let_def)

lemma processBlock_oscilloscope_ring:
  assumes "oscilloscopeBuffer sh \<noteq> []"
  shows "oscRing (processBlock_oscilloscope sh buffer)
         = fold (\<lambda>v r. ring_push r v) (oscEntries buffer) (oscRing sh)"
proof -
  have "processBlock_oscilloscope sh buffer
        = fold (\<lambda>v s. oscilloscope_write s v) (oscEntries buffer) sh"
    using assms by (simp add: processBlock_oscilloscope_def oscEntries_def fold_map comp_def)
  then show ?thesis
    using fold_abstraction[of oscRing oscilloscope_write ring_push, OF oscilloscope_write_ring]
    by simp
qed

lemma oscilloscope_blocks_ring:
  assumes "oscilloscopeBuffer sh \<noteq> []"
  shows "oscRing (fold (\<lambda>buffer sh. processBlock_oscilloscope sh buffer) blocks sh)
         = fold (\<lambda>v r. ring_push r v) (concat (map oscEntries blocks)) (oscRing sh)"
  using assms
proof (induction blocks arbitrary: sh)
  case Nil
  then show ?case by simp
next
  case (Cons b blocks)
  have "length (oscilloscopeBuffer (processBlock_oscilloscope sh b)) = length (oscilloscopeBuffer sh)"
    using ring_fold_length[of "oscEntries b" "oscRing sh"]
    unfolding processBlock_oscilloscope_ring[OF Cons.prems, symmetric]
    by (simp add: oscRing_def)
  then have ne: "oscilloscopeBuffer (processBlock_oscilloscope sh b) \<noteq> []"
    using Cons.prems by auto
  show ?case
    using Cons.IH[OF ne] processBlock_oscilloscope_ring[OF Cons.prems, of b] by simp
qed

lemma fold_invariant:
  assumes "\<And>s v. view (g v s) = view s"
  shows "view (fold g vs s) = view s"
  using assms by (induction vs arbitrary: s) simp_all

lemma processBlock_oscilloscope_lock: "lock (processBlock_oscilloscope sh buffer) = lock sh"
  unfolding processBlock_oscilloscope_def
  by (simp add: fold_invariant[where view = lock] oscilloscope_write_def Let_def)

lemma oscilloscope_wrap:
  assumes "oscilloscopeBuffer (shared p) \<noteq> []"
    and "oscilloscopeWriteIndex (shared p) < length (oscilloscopeBuffer (shared p))"
    and "oscilloscopeFilled (shared p) \<le> length (oscilloscopeBuffer (shared p))"
    and "length (concat (map oscEntries blocks)) = length (oscilloscopeBuffer (shared p)) + 1"
    and "\<not> lock (shared p)"
    and "sh' = fold (\<lambda>buffer sh. processBlock_oscilloscope sh buffer) blocks (shared p)"
  shows "oscilloscopeFilled sh' = length (oscilloscopeBuffer (shared p))
       \<and> oscilloscope (fillSnapshot (p\<lparr>shared := sh'\<rparr>) snapshot includeAudioHistory)
          = tl (concat (map oscEntries blocks))"
proof -
  have r: "fold (\<lambda>v r. ring_push r v) (concat (map oscEntries blocks))
             (oscilloscopeBuffer (shared p), oscilloscopeWriteIndex (shared p), oscilloscopeFilled (shared p))
           = (oscilloscopeBuffer sh', oscilloscopeWriteIndex sh', oscilloscopeFilled sh')"
    using oscilloscope_blocks_ring[OF assms(1), of blocks] unfolding assms(6) oscRing_def by simp
  have l: "lock sh' = lock (shared p)"
    unfolding assms(6) by (rule fold_invariant) (rule processBlock_oscilloscope_lock)
  from ring_wrap[OF assms(2,3,4) r] assms(1,5) l
  show ?thesis
    by (auto simp add: fillSnapshot_def Let_def jmin_min)
qed

lemma loudnessHistory_write_ring:
  "historyRing (loudnessHistory_write sh v) = ring_push (historyRing sh) v"
  by (simp add: historyRing_def loudnessHistory_write_def ring_push_def Let_def)

lemma processBlock_loudnessHistory_ring:
  assumes "SharedState.loudnessHistory sh \<noteq> []"
  shows "historyRing (processBlock_loudnessHistory sh u)
         = fold (\<lambda>v r. ring_push r v) (historyEntries u) (historyRing sh)"
proof -
  have "processBlock_loudnessHistory sh u
        = fold (\<lambda>v s. loudnessHistory_write s v) (historyEntries u) sh"
    using assms
    by (cases "fst u") (simp_all add: processBlock_loudnessHistory_def historyEntries_def
          Let_def fold_map comp_def map_replicate_trivial[symmetric] del: replicate.simps)
  then show ?thesis
    using fold_abstraction[of historyRing loudnessHistory_write ring_push,
                           OF loudnessHistory_write_ring]
    by simp
qed

lemma loudnessHistory_blocks_ring:
  assumes "SharedState.loudnessHistory sh \<noteq> []"
  shows "historyRing (fold (\<lambda>u sh. processBlock_loudnessHistory sh u) updates sh)
         = fold (\<lambda>v r. ring_push r v) (concat (map historyEntries updates)) (historyRing sh)"
  using assms
proof (induction updates arbitrary: sh)
  case Nil
  then show ?case by simp
next
  case (Cons u updates)
  have "length (SharedState.loudnessHistory (processBlock_loudnessHistory sh u))
        = length (SharedState.loudnessHistory sh)"
    using ring_fold_length[of "historyEntries u" "historyRing sh"]
    unfolding processBlock_loudnessHistory_ring[OF Cons.prems, symmetric]
    by (simp add: historyRing_def)
  then have ne: "SharedState.loudnessHistory (processBlock_loudnessHistory sh u) \<noteq> []"
    using Cons.prems by auto
  show ?case
    using Cons.IH[OF ne] processBlock_loudnessHistory_ring[OF Cons.prems, of u] by simp
qed

lemma processBlock_loudnessHistory_lock: "lock (processBlock_loudnessHistory sh u) = lock sh"
  unfolding processBlock_loudnessHistory_def
  by (simp add: fold_invariant[where view = lock] loudnessHistory_write_def Let_def)

lemma loudnessHistory_wrap:
  assumes "SharedState.loudnessHistory (shared p) \<noteq> []"
    and "loudnessHistoryWrite (shared p) < length (SharedState.loudnessHistory (shared p))"
    and "loudnessHistoryFilled (shared p) \<le> length (SharedState.loudnessHistory (shared p))"
    and "length (concat (map historyEntries updates)) = length (SharedState.loudnessHistory (shared p)) + 1"
    and "\<not> lock (shared p)"
    and "sh' = fold (\<lambda>u sh. processBlock_loudnessHistory sh u) updates (shared p)"
  shows "loudnessHistoryFilled sh' = length (SharedState.loudnessHistory (shared p))
       \<and> SharedDataSnapshot.loudnessHistory (fillSnapshot (p\<lparr>shared := sh'\<rparr>) snapshot includeAudioHistory)
          = tl (concat (map historyEntries updates))"
proof -
  have r: "fold (\<lambda>v r. ring_push r v) (concat (map historyEntries updates))
             (SharedState.loudnessHistory (shared p), loudnessHistoryWrite (shared p), loudnessHistoryFilled (shared p))
           = (SharedState.loudnessHistory sh', loudnessHistoryWrite sh', loudnessHistoryFilled sh')"
    using loudnessHistory_blocks_ring[OF assms(1), of updates] unfolding assms(6) historyRing_def by simp
  have l: "lock sh' = lock (shared p)"
    unfolding assms(6) by (rule fold_invariant) (rule processBlock_loudnessHistory_lock)
  from ring_wrap[OF assms(2,3,4) r] assms(1,5) l
  show ?thesis
    by (auto simp add: fillSnapshot_def Let_def jmin_min)
qed


lemma fold_abstraction_inv:
  assumes "\<And>s v. I s \<Longrightarrow> v \<in> set vs \<Longrightarrow> view (g s v) = h (view s) v \<and> I (g s v)"
    and "I s"
  shows "view (fold (\<lambda>v s. g s v) vs s) = fold (\<lambda>v r. h r v) vs (view s)
         \<and> I (fold (\<lambda>v s. g s v) vs s)"
  using assms by (induction vs arbitrary: s) simp_all

lemma write_column_length:
  "length (fold (\<lambda>bin h. h[bin := (h ! bin)[pos := frame ! bin]]) [0..<bins] h) = length h"
  by (induction bins) simp_all

lemma write_column_nth:
  assumes "b < length h"
  shows "fold (\<lambda>bin h. h[bin := (h ! bin)[pos := frame ! bin]]) [0..<bins] h ! b
         = (if b < bins then (h ! b)[pos := frame ! b] else h ! b)"
  using assms
proof (induction bins)
  case 0
  then show ?case by simp
next
  case (Suc bins)
  then show ?case
    by (auto simp add: write_column_length nth_list_update less_Suc_eq)
qed

lemma getNumSamples_hd: "h \<noteq> [] \<Longrightarrow> getNumSamples h = length (h ! 0)"
  by (cases h) (simp_all add: getNumSamples_def)

lemma write_column_rows:
  assumes "list_all (\<lambda>row. length row = c) h"
  shows "list_all (\<lambda>row. length row = c)
           (fold (\<lambda>bin h. h[bin := (h ! bin)[pos := frame ! bin]]) [0..<bins] h)"
  using assms
  by (auto simp add: list_all_length write_column_length write_column_nth)

lemma write_column_numSamples:
  assumes "h \<noteq> []"
  shows "getNumSamples (fold (\<lambda>bin h. h[bin := (h ! bin)[pos := frame ! bin]]) [0..<bins] h)
         = getNumSamples h"
proof -
  let ?h' = "fold (\<lambda>bin h. h[bin := (h ! bin)[pos := frame ! bin]]) [0..<bins] h"
  have ne: "?h' \<noteq> []" using assms write_column_length[of pos frame bins h] by auto
  have "0 < length h" using assms by simp
  then have "length (?h' ! 0) = length (h ! 0)"
    by (simp add: write_column_nth)
  then show ?thesis using assms ne by (simp add: getNumSamples_hd)
qed

lemma processBlock_spectrogram_ring:
  assumes "spectrogram_wf sh" "length frame = getNumChannels (spectrogramHistory sh)"
    and "bin < getNumChannels (spectrogramHistory sh)"
  shows "spectrogramRing bin (processBlock_spectrogram sh frame)
           = ring_push (spectrogramRing bin sh) (frame ! bin)
         \<and> spectrogram_wf (processBlock_spectrogram sh frame)
         \<and> getNumChannels (spectrogramHistory (processBlock_spectrogram sh frame))
             = getNumChannels (spectrogramHistory sh)"
proof -
  let ?h = "spectrogramHistory sh"
  let ?c = "getNumSamples ?h"
  let ?pos = "SharedState.spectrogramWritePosition sh"
  have ne: "?h \<noteq> []" and c: "0 < ?c" and rows: "list_all (\<lambda>row. length row = ?c) ?h"
    and pos: "?pos < ?c"
    using assms(1) by (simp_all add: spectrogram_wf_def)
  have b: "bin < length ?h" using assms(3) by (simp add: getNumChannels_def)
  have rowlen: "length (?h ! bin) = ?c" using rows b by (simp add: list_all_length)
  have bins: "jmin (length frame) (getNumChannels ?h) = length ?h"
    using assms(2) by (simp add: jmin_def getNumChannels_def)
  let ?h' = "fold (\<lambda>bin h. h[bin := (h ! bin)[?pos := frame ! bin]]) [0..<length ?h] ?h"
  let ?sh' = "processBlock_spectrogram sh frame"
  have hist: "spectrogramHistory ?sh' = ?h'"
    using c by (simp add: processBlock_spectrogram_def Let_def bins)
  have pos': "SharedState.spectrogramWritePosition ?sh' = (?pos + 1) mod ?c"
    using c by (simp add: processBlock_spectrogram_def Let_def bins)
  have wrapped': "SharedState.spectrogramWrapped ?sh'
                  = (if (?pos + 1) mod ?c = 0 then True else SharedState.spectrogramWrapped sh)"
    using c by (simp add: processBlock_spectrogram_def Let_def bins)
  have len': "length ?h' = length ?h" by (rule write_column_length)
  have ne': "?h' \<noteq> []" using ne len' by auto
  have c': "getNumSamples ?h' = ?c" by (rule write_column_numSamples[OF ne])
  have rows': "list_all (\<lambda>row. length row = ?c) ?h'" by (rule write_column_rows[OF rows])
  have row': "?h' ! bin = (?h ! bin)[?pos := frame ! bin]"
    using b by (simp add: write_column_nth)
  have wrap: "(?pos + 1) mod ?c = 0 \<longleftrightarrow> ?pos + 1 = ?c"
    using pos by (auto simp: mod_lt2)
  have filled: "(if SharedState.spectrogramWrapped ?sh' then ?c else (?pos + 1) mod ?c)
                = min ?c ((if SharedState.spectrogramWrapped sh then ?c else ?pos) + 1)"
    unfolding wrapped' using pos wrap by (auto simp: mod_lt2)
  have ring: "spectrogramRing bin ?sh' = ring_push (spectrogramRing bin sh) (frame ! bin)"
    unfolding spectrogramRing_def ring_push_def hist pos' c' row'
    using filled rowlen by (simp add: jmin_min)
  have wf: "spectrogram_wf ?sh'"
    unfolding spectrogram_wf_def hist pos' c' using ne' c rows' by simp
  show ?thesis using ring wf len' unfolding hist by (simp add: getNumChannels_def)
qed

lemma spectrogram_frames_ring:
  assumes "spectrogram_wf sh"
    and "list_all (\<lambda>frame. length frame = getNumChannels (spectrogramHistory sh)) frames"
    and "bin < getNumChannels (spectrogramHistory sh)"
  shows "spectrogramRing bin (fold (\<lambda>frame sh. processBlock_spectrogram sh frame) frames sh)
           = fold (\<lambda>v r. ring_push r v) (map (\<lambda>frame. frame ! bin) frames) (spectrogramRing bin sh)
         \<and> spectrogram_wf (fold (\<lambda>frame sh. processBlock_spectrogram sh frame) frames sh)
         \<and> getNumChannels (spectrogramHistory (fold (\<lambda>frame sh. processBlock_spectrogram sh frame) frames sh))
             = getNumChannels (spectrogramHistory sh)"
  using assms
proof (induction frames arbitrary: sh)
  case Nil
  then show ?case by simp
next
  case (Cons frame frames)
  have len: "length frame = getNumChannels (spectrogramHistory sh)"
    using Cons.prems(2) by simp
  note step = processBlock_spectrogram_ring[OF Cons.prems(1) len Cons.prems(3)]
  let ?sh1 = "processBlock_spectrogram sh frame"
  have frames1: "list_all (\<lambda>frame. length frame = getNumChannels (spectrogramHistory ?sh1)) frames"
    using Cons.prems(2) step by simp
  have bin1: "bin < getNumChannels (spectrogramHistory ?sh1)"
    using Cons.prems(3) step by simp
  from Cons.IH[OF _ frames1 bin1] step show ?case by simp
qed

lemma processBlock_spectrogram_lock: "lock (processBlock_spectrogram sh frame) = lock sh"
  by (simp add: processBlock_spectrogram_def Let_def)

lemma spectrogram_reader:
  assumes "h \<noteq> []" "0 < getNumSamples h" "pos < getNumSamples h"
    and "spectrogram snapshot = h"
    and "SharedDataSnapshot.spectrogramWritePosition snapshot = pos"
    and "SharedDataSnapshot.spectrogramWrapped snapshot"
  shows "availableColumns snapshot = getNumSamples h"
    and "orderedColumns snapshot
         = map (\<lambda>bin. ring_readout (h ! bin) pos (getNumSamples h) (getNumSamples h)) [0..<length h]"
proof -
  show a: "availableColumns snapshot = getNumSamples h"
    using assms by (simp add: availableColumns_def Let_def)
  have "(pos mod getNumSamples h + column) mod getNumSamples h = (pos + column) mod getNumSamples h"
    for column by (simp add: mod_add_left_eq)
  then show "orderedColumns snapshot
         = map (\<lambda>bin. ring_readout (h ! bin) pos (getNumSamples h) (getNumSamples h)) [0..<length h]"
    using assms a
    by (simp add: orderedColumns_def Let_def getNumChannels_def ring_readout_def)
qed

lemma spectrogram_wrap:
  assumes "spectrogram_wf (shared p)"
    and "list_all (\<lambda>frame. length frame = getNumChannels (spectrogramHistory (shared p))) frames"
    and "length frames = getNumSamples (spectrogramHistory (shared p)) + 1"
    and "\<not> lock (shared p)"
    and "sh' = fold (\<lambda>frame sh. processBlock_spectrogram sh frame) frames (shared p)"
    and "snapshot' = fillSnapshot (p\<lparr>shared := sh'\<rparr>) snapshot includeAudioHistory"
  shows "availableColumns snapshot' = getNumSamples (spectrogramHistory (shared p))
       \<and> orderedColumns snapshot'
          = map (\<lambda>bin. tl (map (\<lambda>frame. frame ! bin) frames))
              [0..<getNumChannels (spectrogramHistory (shared p))]"
proof -
  let ?sh = "shared p"
  let ?h = "spectrogramHistory ?sh"
  let ?c = "getNumSamples ?h"
  let ?h' = "spectrogramHistory sh'"
  have ne: "?h \<noteq> []" and c: "0 < ?c" and rows: "list_all (\<lambda>row. length row = ?c) ?h"
    and pos: "SharedState.spectrogramWritePosition ?sh < ?c"
    using assms(1) by (simp_all add: spectrogram_wf_def)
  have bin0: "0 < getNumChannels ?h" using ne by (simp add: getNumChannels_def)
  note all = spectrogram_frames_ring[OF assms(1,2), folded assms(5)]
  have wf': "spectrogram_wf sh'" and ch': "getNumChannels ?h' = getNumChannels ?h"
    using all[OF bin0] by simp_all
  have l: "lock sh' = lock ?sh"
    unfolding assms(5) by (rule fold_invariant) (rule processBlock_spectrogram_lock)
  have per_bin: "length (?h' ! bin) = ?c
        \<and> (if SharedState.spectrogramWrapped sh' then getNumSamples ?h'
            else SharedState.spectrogramWritePosition sh') = ?c
        \<and> ring_readout (?h' ! bin) (SharedState.spectrogramWritePosition sh') ?c ?c
            = tl (map (\<lambda>frame. frame ! bin) frames)"
    if bin: "bin < getNumChannels ?h" for bin
  proof -
    have rowlen: "length (?h ! bin) = ?c"
      using rows bin by (simp add: list_all_length getNumChannels_def)
    have w: "SharedState.spectrogramWritePosition ?sh < length (?h ! bin)"
      using pos rowlen by simp
    have f: "(if SharedState.spectrogramWrapped ?sh then ?c else SharedState.spectrogramWritePosition ?sh)
             \<le> length (?h ! bin)"
      using pos rowlen by simp
    have n: "length (map (\<lambda>frame. frame ! bin) frames) = length (?h ! bin) + 1"
      using assms(3) rowlen by simp
    have r: "fold (\<lambda>v r. ring_push r v) (map (\<lambda>frame. frame ! bin) frames)
               (?h ! bin, SharedState.spectrogramWritePosition ?sh,
                if SharedState.spectrogramWrapped ?sh then ?c else SharedState.spectrogramWritePosition ?sh)
             = (?h' ! bin, SharedState.spectrogramWritePosition sh',
                if SharedState.spectrogramWrapped sh' then getNumSamples ?h'
                else SharedState.spectrogramWritePosition sh')"
      using all[OF bin] by (simp add: spectrogramRing_def)
    note rw = ring_wrap[OF w f n r]
    have l1: "length (?h' ! bin) = ?c" using rw rowlen by simp
    have f1: "(if SharedState.spectrogramWrapped sh' then getNumSamples ?h'
               else SharedState.spectrogramWritePosition sh') = ?c"
      using rw rowlen by simp
    have "ring_readout (?h' ! bin) (SharedState.spectrogramWritePosition sh') ?c ?c
            = tl (map (\<lambda>frame. frame ! bin) frames)"
      using conjunct2[OF conjunct2[OF rw]] unfolding f1 l1 .
    then show ?thesis using l1 f1 by simp
  qed
  have c': "getNumSamples ?h' = ?c"
    using per_bin[OF bin0] wf' ch' bin0
    by (simp add: getNumSamples_hd spectrogram_wf_def getNumChannels_def)
  have pos': "SharedState.spectrogramWritePosition sh' < ?c"
    using wf' c' by (simp add: spectrogram_wf_def)
  have wrapped': "SharedState.spectrogramWrapped sh'"
    using per_bin[OF bin0] pos' by (auto split: if_splits)
  have ne': "?h' \<noteq> []" using wf' by (simp add: spectrogram_wf_def)
  have snap: "spectrogram snapshot' = ?h'"
    "SharedDataSnapshot.spectrogramWritePosition snapshot' = SharedState.spectrogramWritePosition sh'"
    "SharedDataSnapshot.spectrogramWrapped snapshot'"
    using assms(4) l c c' wrapped' unfolding assms(6)
    by (simp_all add: fillSnapshot_def Let_def)
  have c'pos: "0 < getNumSamples ?h'" and pos'': "SharedState.spectrogramWritePosition sh' < getNumSamples ?h'"
    using c c' pos' by simp_all
  note rd = spectrogram_reader[OF ne' c'pos pos'' snap]
  have "orderedColumns snapshot'
        = map (\<lambda>bin. tl (map (\<lambda>frame. frame ! bin) frames)) [0..<getNumChannels ?h]"
    unfolding rd(2) c' using per_bin ch' by (simp add: getNumChannels_def)
  then show ?thesis using rd(1) c' by simp
qed


lemma waveform_sample_wf:
  "waveform_wf sh \<Longrightarrow> waveform_wf (waveform_sample sh x)
     \<and> length (waveformMin (waveform_sample sh x) 0) = length (waveformMin sh 0)
     \<and> lock (waveform_sample sh x) = lock sh"
  by (auto simp add: waveform_wf_def waveform_sample_def Let_def jmin_min)

lemma waveform_fold_ring:
  assumes step: "\<And>s x. waveform_wf s \<Longrightarrow>
             view (waveform_sample s x)
             = (if bucketCloses s then ring_push (view s) (e (s, x)) else view s)"
    and "waveform_wf sh"
  shows "view (fold (\<lambda>x s. waveform_sample s x) xs sh)
         = fold (\<lambda>v r. ring_push r v) (map e (waveformClosings sh xs)) (view sh)"
  using assms(2)
proof (induction xs arbitrary: sh)
  case Nil
  then show ?case by simp
next
  case (Cons x xs)
  have wf1: "waveform_wf (waveform_sample sh x)" using waveform_sample_wf[OF Cons.prems] by simp
  show ?case using Cons.IH[OF wf1] step[OF Cons.prems, of x] by simp
qed

lemma waveform_fold_wf:
  "waveform_wf sh \<Longrightarrow> waveform_wf (fold (\<lambda>x s. waveform_sample s x) xs sh)
     \<and> length (waveformMin (fold (\<lambda>x s. waveform_sample s x) xs sh) 0) = length (waveformMin sh 0)
     \<and> lock (fold (\<lambda>x s. waveform_sample s x) xs sh) = lock sh"
proof (induction xs arbitrary: sh)
  case Nil
  then show ?case by simp
next
  case (Cons x xs)
  show ?case using Cons.IH[of "waveform_sample sh x"] waveform_sample_wf[OF Cons.prems, of x] by simp
qed

lemma minRing_step:
  assumes "ch < 2" "waveform_wf s"
  shows "minRing ch (waveform_sample s x)
         = (if bucketCloses s then ring_push (minRing ch s) (bucketMin ch (s, x)) else minRing ch s)"
proof -
  have "ch = 0 \<or> ch = 1" using assms(1) by auto
  then show ?thesis
    using assms(2)
    by (auto simp add: minRing_def waveform_sample_def Let_def bucketCloses_def ring_push_def
          bucketMin_def waveform_wf_def)
qed

lemma maxRing_step:
  assumes "ch < 2" "waveform_wf s"
  shows "maxRing ch (waveform_sample s x)
         = (if bucketCloses s then ring_push (maxRing ch s) (bucketMax ch (s, x)) else maxRing ch s)"
proof -
  have "ch = 0 \<or> ch = 1" using assms(1) by auto
  then show ?thesis
    using assms(2)
    by (auto simp add: maxRing_def waveform_sample_def Let_def bucketCloses_def ring_push_def
          bucketMax_def waveform_wf_def)
qed

lemma bandRing_step:
  assumes "ch < 2" "band < 3" "waveform_wf s"
  shows "bandRing ch band (waveform_sample s x)
         = (if bucketCloses s then ring_push (bandRing ch band s) (bucketBand ch band (s, x))
            else bandRing ch band s)"
proof -
  have "ch = 0 \<or> ch = 1" using assms(1) by auto
  moreover have "band = 0 \<or> band = 1 \<or> band = 2" using assms(2) by auto
  ultimately show ?thesis
    using assms(3)
    by (auto simp add: bandRing_def waveform_sample_def Let_def bucketCloses_def ring_push_def
          bucketBand_def waveform_wf_def)
qed

lemma waveform_vector_wrap:
  assumes view: "\<And>s. view s = (vec s, waveformWriteIndex s, waveformFilled s)"
    and step: "\<And>s x. waveform_wf s \<Longrightarrow>
             view (waveform_sample s x)
             = (if bucketCloses s then ring_push (view s) (e (s, x)) else view s)"
    and wf: "waveform_wf sh"
    and len: "length (vec sh) = length (waveformMin sh 0)"
    and n: "length (waveformClosings sh xs) = length (waveformMin sh 0) + 1"
  shows "waveformFilled (fold (\<lambda>x s. waveform_sample s x) xs sh) = length (waveformMin sh 0)
       \<and> ring_readout (vec (fold (\<lambda>x s. waveform_sample s x) xs sh))
            (waveformWriteIndex (fold (\<lambda>x s. waveform_sample s x) xs sh))
            (length (waveformMin sh 0)) (length (waveformMin sh 0))
          = tl (map e (waveformClosings sh xs))"
proof -
  let ?sh' = "fold (\<lambda>x s. waveform_sample s x) xs sh"
  have w: "waveformWriteIndex sh < length (vec sh)" and f: "waveformFilled sh \<le> length (vec sh)"
    using wf len by (simp_all add: waveform_wf_def)
  have n': "length (map e (waveformClosings sh xs)) = length (vec sh) + 1"
    using n len by simp
  have r: "fold (\<lambda>v r. ring_push r v) (map e (waveformClosings sh xs))
             (vec sh, waveformWriteIndex sh, waveformFilled sh)
           = (vec ?sh', waveformWriteIndex ?sh', waveformFilled ?sh')"
    using waveform_fold_ring[of view e sh xs, OF step wf] by (simp add: view)
  note rw = ring_wrap[OF w f n' r]
  have l1: "length (vec ?sh') = length (waveformMin sh 0)" using rw len by simp
  have f1: "waveformFilled ?sh' = length (waveformMin sh 0)" using rw len by simp
  have "ring_readout (vec ?sh') (waveformWriteIndex ?sh')
            (length (waveformMin sh 0)) (length (waveformMin sh 0))
          = tl (map e (waveformClosings sh xs))"
    using conjunct2[OF conjunct2[OF rw]] unfolding f1 l1 .
  then show ?thesis using f1 by simp
qed

lemma processBlock_waveform_fold:
  assumes "waveform_wf sh"
  shows "fold (\<lambda>xs sh. processBlock_waveform sh xs) blocks sh
         = fold (\<lambda>x s. waveform_sample s x) (concat blocks) sh"
  using assms
proof (induction blocks arbitrary: sh)
  case Nil
  then show ?case by simp
next
  case (Cons xs blocks)
  have one: "processBlock_waveform sh xs = fold (\<lambda>x s. waveform_sample s x) xs sh"
    using Cons.prems by (simp add: processBlock_waveform_def waveform_wf_def)
  have wf1: "waveform_wf (fold (\<lambda>x s. waveform_sample s x) xs sh)"
    using waveform_fold_wf[OF Cons.prems] by simp
  show ?case using Cons.IH[OF wf1] one by simp
qed

lemma waveform_wrap:
  assumes wf: "waveform_wf (shared p)"
    and n: "length (waveformClosings (shared p) (concat blocks)) = length (waveformMin (shared p) 0) + 1"
    and lk: "\<not> lock (shared p)"
    and sh': "sh' = fold (\<lambda>xs sh. processBlock_waveform sh xs) blocks (shared p)"
    and snap: "snapshot' = fillSnapshot (p\<lparr>shared := sh'\<rparr>) snapshot includeAudioHistory"
    and cl: "buckets = waveformClosings (shared p) (concat blocks)"
  shows "waveformFilled sh' = length (waveformMin (shared p) 0)
       \<and> waveformLeftMins snapshot' = tl (map (bucketMin 0) buckets)
       \<and> waveformLeftMaxs snapshot' = tl (map (bucketMax 0) buckets)
       \<and> waveformRightMins snapshot' = tl (map (bucketMin 1) buckets)
       \<and> waveformRightMaxs snapshot' = tl (map (bucketMax 1) buckets)
       \<and> waveformLeftLowBand snapshot' = tl (map (bucketBand 0 0) buckets)
       \<and> waveformLeftMidBand snapshot' = tl (map (bucketBand 0 1) buckets)
       \<and> waveformLeftHighBand snapshot' = tl (map (bucketBand 0 2) buckets)
       \<and> waveformRightLowBand snapshot' = tl (map (bucketBand 1 0) buckets)
       \<and> waveformRightMidBand snapshot' = tl (map (bucketBand 1 1) buckets)
       \<and> waveformRightHighBand snapshot' = tl (map (bucketBand 1 2) buckets)"
proof -
  let ?sh = "shared p"
  let ?c = "length (waveformMin ?sh 0)"
  have sh'': "sh' = fold (\<lambda>x s. waveform_sample s x) (concat blocks) ?sh"
    unfolding sh' by (rule processBlock_waveform_fold[OF wf])
  have c: "0 < ?c" using wf by (simp add: waveform_wf_def)
  have inv: "length (waveformMin sh' 0) = ?c" "lock sh' = lock ?sh"
    using waveform_fold_wf[OF wf, of "concat blocks"] unfolding sh'' by simp_all
  have lens: "length (waveformMin ?sh 1) = ?c" "length (waveformMax ?sh 0) = ?c"
    "length (waveformMax ?sh 1) = ?c"
    "length (waveformBandEnergy ?sh 0 0) = ?c" "length (waveformBandEnergy ?sh 0 1) = ?c"
    "length (waveformBandEnergy ?sh 0 2) = ?c" "length (waveformBandEnergy ?sh 1 0) = ?c"
    "length (waveformBandEnergy ?sh 1 1) = ?c" "length (waveformBandEnergy ?sh 1 2) = ?c"
    using wf by (simp_all add: waveform_wf_def)
  note mn = waveform_vector_wrap[where view = "minRing ch" and vec = "\<lambda>s. waveformMin s ch"
      and e = "bucketMin ch" for ch, OF minRing_def minRing_step wf _ n, folded sh'' cl]
  note mx = waveform_vector_wrap[where view = "maxRing ch" and vec = "\<lambda>s. waveformMax s ch"
      and e = "bucketMax ch" for ch, OF maxRing_def maxRing_step wf _ n, folded sh'' cl]
  note bd = waveform_vector_wrap[where view = "bandRing ch band"
      and vec = "\<lambda>s. waveformBandEnergy s ch band"
      and e = "bucketBand ch band" for ch band, OF bandRing_def bandRing_step wf _ n, folded sh'' cl]
  have filled: "waveformFilled sh' = ?c" using mn[of 0] by simp
  have valid: "jmin (waveformFilled sh') (length (waveformMin sh' 0)) = ?c"
    using filled inv by (simp add: jmin_def)
  have fields:
    "waveformLeftMins snapshot' = ring_readout (waveformMin sh' 0) (waveformWriteIndex sh') ?c ?c"
    "waveformLeftMaxs snapshot' = ring_readout (waveformMax sh' 0) (waveformWriteIndex sh') ?c ?c"
    "waveformRightMins snapshot' = ring_readout (waveformMin sh' 1) (waveformWriteIndex sh') ?c ?c"
    "waveformRightMaxs snapshot' = ring_readout (waveformMax sh' 1) (waveformWriteIndex sh') ?c ?c"
    "waveformLeftLowBand snapshot' = ring_readout (waveformBandEnergy sh' 0 0) (waveformWriteIndex sh') ?c ?c"
    "waveformLeftMidBand snapshot' = ring_readout (waveformBandEnergy sh' 0 1) (waveformWriteIndex sh') ?c ?c"
    "waveformLeftHighBand snapshot' = ring_readout (waveformBandEnergy sh' 0 2) (waveformWriteIndex sh') ?c ?c"
    "waveformRightLowBand snapshot' = ring_readout (waveformBandEnergy sh' 1 0) (waveformWriteIndex sh') ?c ?c"
    "waveformRightMidBand snapshot' = ring_readout (waveformBandEnergy sh' 1 1) (waveformWriteIndex sh') ?c ?c"
    "waveformRightHighBand snapshot' = ring_readout (waveformBandEnergy sh' 1 2) (waveformWriteIndex sh') ?c ?c"
    unfolding snap using lk inv c valid by (simp_all add: fillSnapshot_def Let_def)
  show ?thesis
    unfolding fields
    using filled mn[of 0] mn[of 1] mx[of 0] mx[of 1] lens
      bd[of 0 0] bd[of 0 1] bd[of 0 2] bd[of 1 0] bd[of 1 1] bd[of 1 2]
    by simp
qed


text \<open>
  Claim C6. For each ring the snapshot shows (oscilloscope samples, loudness history,
  waveform buckets, spectrogram columns), of capacity \<open>C\<close> and in any well-formed
  state: after exactly \<open>C + 1\<close> entries have been pushed, the filled count is \<open>C\<close>, and
  the read-out is the pushed entries without the first one, in the order they were
  pushed, that is the last \<open>C\<close> of them, oldest first. The oscilloscope, loudness-history
  and waveform rings are linearised by \<open>fillSnapshot\<close> from
  \<open>(writeIndex - filled + C) mod C\<close>; for the spectrogram the count is the reader's
  number of available columns and the reader starts at the write position, which is
  the same index once the ring has wrapped.
\<close>

theorem ring_wrap_correctness:
  assumes "\<not> lock (shared p)"
    and "ring_wf (oscilloscopeBuffer (shared p)) (oscilloscopeWriteIndex (shared p))
           (oscilloscopeFilled (shared p))"
    and "length (concat (map oscEntries blocks)) = length (oscilloscopeBuffer (shared p)) + 1"
    and "ring_wf (SharedState.loudnessHistory (shared p)) (loudnessHistoryWrite (shared p))
           (loudnessHistoryFilled (shared p))"
    and "length (concat (map historyEntries updates))
           = length (SharedState.loudnessHistory (shared p)) + 1"
    and "waveform_wf (shared p)"
    and "length (waveformClosings (shared p) (concat inputs)) = length (waveformMin (shared p) 0) + 1"
    and "spectrogram_wf (shared p)"
    and "list_all (\<lambda>frame. length frame = getNumChannels (spectrogramHistory (shared p))) frames"
    and "length frames = getNumSamples (spectrogramHistory (shared p)) + 1"
  shows
    "(let sh' = fold (\<lambda>buffer sh. processBlock_oscilloscope sh buffer) blocks (shared p);
          snapshot' = fillSnapshot (p\<lparr>shared := sh'\<rparr>) snapshot includeAudioHistory
      in oscilloscopeFilled sh' = length (oscilloscopeBuffer (shared p))
         \<and> oscilloscope snapshot' = tl (concat (map oscEntries blocks)))
   \<and> (let sh' = fold (\<lambda>u sh. processBlock_loudnessHistory sh u) updates (shared p);
          snapshot' = fillSnapshot (p\<lparr>shared := sh'\<rparr>) snapshot includeAudioHistory
      in loudnessHistoryFilled sh' = length (SharedState.loudnessHistory (shared p))
         \<and> SharedDataSnapshot.loudnessHistory snapshot' = tl (concat (map historyEntries updates)))
   \<and> (let sh' = fold (\<lambda>xs sh. processBlock_waveform sh xs) inputs (shared p);
          snapshot' = fillSnapshot (p\<lparr>shared := sh'\<rparr>) snapshot includeAudioHistory;
          buckets = waveformClosings (shared p) (concat inputs)
      in waveformFilled sh' = length (waveformMin (shared p) 0)
         \<and> waveformLeftMins snapshot' = tl (map (bucketMin 0) buckets)
         \<and> waveformLeftMaxs snapshot' = tl (map (bucketMax 0) buckets)
         \<and> waveformRightMins snapshot' = tl (map (bucketMin 1) buckets)
         \<and> waveformRightMaxs snapshot' = tl (map (bucketMax 1) buckets)
         \<and> waveformLeftLowBand snapshot' = tl (map (bucketBand 0 0) buckets)
         \<and> waveformLeftMidBand snapshot' = tl (map (bucketBand 0 1) buckets)
         \<and> waveformLeftHighBand snapshot' = tl (map (bucketBand 0 2) buckets)
         \<and> waveformRightLowBand snapshot' = tl (map (bucketBand 1 0) buckets)
         \<and> waveformRightMidBand snapshot' = tl (map (bucketBand 1 1) buckets)
         \<and> waveformRightHighBand snapshot' = tl (map (bucketBand 1 2) buckets))
   \<and> (let sh' = fold (\<lambda>frame sh. processBlock_spectrogram sh frame) frames (shared p);
          snapshot' = fillSnapshot (p\<lparr>shared := sh'\<rparr>) snapshot includeAudioHistory
      in availableColumns snapshot' = getNumSamples (spectrogramHistory (shared p))
         \<and> orderedColumns snapshot'
            = map (\<lambda>bin. tl (map (\<lambda>frame. frame ! bin) frames))
                [0..<getNumChannels (spectrogramHistory (shared p))])"
proof -
  have osc: "oscilloscopeBuffer (shared p) \<noteq> []"
    "oscilloscopeWriteIndex (shared p) < length (oscilloscopeBuffer (shared p))"
    "oscilloscopeFilled (shared p) \<le> length (oscilloscopeBuffer (shared p))"
    using assms(2) by (simp_all add: ring_wf_def)
  have hist: "SharedState.loudnessHistory (shared p) \<noteq> []"
    "loudnessHistoryWrite (shared p) < length (SharedState.loudnessHistory (shared p))"
    "loudnessHistoryFilled (shared p) \<le> length (SharedState.loudnessHistory (shared p))"
    using assms(4) by (simp_all add: ring_wf_def)
  show ?thesis
    unfolding Let_def
    using oscilloscope_wrap[OF osc assms(3,1) refl, of snapshot includeAudioHistory]
      loudnessHistory_wrap[OF hist assms(5,1) refl, of snapshot includeAudioHistory]
      waveform_wrap[OF assms(6,7,1) refl refl refl, of snapshot includeAudioHistory]
      spectrogram_wrap[OF assms(8,9,10,1) refl refl, of snapshot includeAudioHistory]
    by blast
qed

theorem ring_wrap_correctness_witness:
  "oscilloscope (fillSnapshot
       (smallRings\<lparr>shared := fold (\<lambda>buffer sh. processBlock_oscilloscope sh buffer)
                                [[[1, 2], [3, 4]], [[5], [7]]] (shared smallRings)\<rparr>)
       SharedDataSnapshot_default False) = [3, 6]
   \<and> SharedDataSnapshot.loudnessHistory (fillSnapshot
       (smallRings\<lparr>shared := fold (\<lambda>u sh. processBlock_loudnessHistory sh u)
                                [(2, - 20), (1, - 19)] (shared smallRings)\<rparr>)
       SharedDataSnapshot_default False) = [- 20, - 19]
   \<and> waveformLeftMins (fillSnapshot
       (smallRings\<lparr>shared := fold (\<lambda>xs sh. processBlock_waveform sh xs)
                                [twoSamples] (shared smallRings)\<rparr>)
       SharedDataSnapshot_default False) = [- 1 / 4]
   \<and> orderedColumns (fillSnapshot
       (smallRings\<lparr>shared := fold (\<lambda>frame sh. processBlock_spectrogram sh frame)
                                [[1, 2], [3, 4], [5, 6]] (shared smallRings)\<rparr>)
       SharedDataSnapshot_default False) = [[3, 5], [4, 6]]"
proof -
  have h1: "\<not> lock (shared smallRings)"
    by (simp add: smallRings_def initialiseSharedState_def)
  have h2: "ring_wf (oscilloscopeBuffer (shared smallRings)) (oscilloscopeWriteIndex (shared smallRings))
           (oscilloscopeFilled (shared smallRings))"
    by (simp add: smallRings_def initialiseSharedState_def ring_wf_def)
  have e3: "concat (map oscEntries [[[1, 2], [3, 4]], [[5], [7]]]) = [2, 3, 6]"
    by (simp add: oscEntries_def sampleL_def sampleR_def numCh_def getNumChannels_def
          getNumSamples_def jmin_def)
  have h3: "length (concat (map oscEntries [[[1, 2], [3, 4]], [[5], [7]]]))
            = length (oscilloscopeBuffer (shared smallRings)) + 1"
    unfolding e3 by (simp add: smallRings_def initialiseSharedState_def)
  have h4: "ring_wf (SharedState.loudnessHistory (shared smallRings)) (loudnessHistoryWrite (shared smallRings))
           (loudnessHistoryFilled (shared smallRings))"
    by (simp add: smallRings_def initialiseSharedState_def ring_wf_def)
  have e5: "concat (map historyEntries [(2, - 20), (1, - 19)]) = [- 20, - 20, - 19]"
    by (simp add: historyEntries_def numeral_2_eq_2)
  have h5: "length (concat (map historyEntries [(2, - 20), (1, - 19)]))
            = length (SharedState.loudnessHistory (shared smallRings)) + 1"
    unfolding e5 by (simp add: smallRings_def initialiseSharedState_def)
  have h6: "waveform_wf (shared smallRings)"
    by (simp add: smallRings_def initialiseSharedState_def waveform_wf_def)
  have e7: "map (bucketMin 0) (waveformClosings (shared smallRings) (concat [twoSamples]))
            = [1 / 4, - 1 / 4]"
    by (simp add: twoSamples_def smallRings_def initialiseSharedState_def bucketCloses_def
          waveform_sample_def Let_def bucketMin_def jmin_def jmax_def)
  have h7: "length (waveformClosings (shared smallRings) (concat [twoSamples]))
            = length (waveformMin (shared smallRings) 0) + 1"
    using arg_cong[OF e7, of length] by (simp add: smallRings_def initialiseSharedState_def)
  have h8: "spectrogram_wf (shared smallRings)"
    by (simp add: smallRings_def initialiseSharedState_def spectrogram_wf_def getNumSamples_def)
  have h9: "list_all (\<lambda>frame. length frame = getNumChannels (spectrogramHistory (shared smallRings)))
              [[1, 2], [3, 4], [5, 6]]"
    by (simp add: smallRings_def initialiseSharedState_def getNumChannels_def)
  have h10: "length [[1, 2], [3, 4], [5, 6::real]] = getNumSamples (spectrogramHistory (shared smallRings)) + 1"
    by (simp add: smallRings_def initialiseSharedState_def getNumSamples_def)
  have bins: "[0..<getNumChannels (spectrogramHistory (shared smallRings))] = [0, 1]"
    by (simp add: smallRings_def initialiseSharedState_def getNumChannels_def upt_rec)
  note t = ring_wrap_correctness[OF h1 h2 h3 h4 h5 h6 h7 h8 h9 h10,
      of SharedDataSnapshot_default False, unfolded Let_def e3 e5 e7 bins]
  show ?thesis using t by simp
qed

section \<open>Loudness engine: integrated loudness and loudness range\<close>

lemma length_resize [simp]: "length (resize xs n) = n"
  by (simp add: resize_def)

lemma fold_pack:
  assumes "n \<le> length scratch0"
  shows "\<exists>scratch. fold (\<lambda>i (scratch, valid).
                 let energy = g i; loudness = l energy
                 in if P loudness then (scratch[valid := energy], valid + 1)
                    else (scratch, valid))
           [0..<n] (scratch0, 0) = (scratch, length (filter (\<lambda>e. P (l e)) (map g [0..<n])))
         \<and> length scratch = length scratch0
         \<and> take (length (filter (\<lambda>e. P (l e)) (map g [0..<n]))) scratch = filter (\<lambda>e. P (l e)) (map g [0..<n])"
  using assms
proof (induction n)
  case 0
  then show ?case by simp
next
  case (Suc n)
  let ?F = "\<lambda>i (scratch, valid).
                 let energy = g i; loudness = l energy
                 in if P loudness then (scratch[valid := energy], valid + 1)
                    else (scratch, valid)"
  let ?k = "length (filter (\<lambda>e. P (l e)) (map g [0..<n]))"
  from Suc obtain scratch where
    f: "fold ?F [0..<n] (scratch0, 0) = (scratch, ?k)"
    and len: "length scratch = length scratch0"
    and tk: "take ?k scratch = filter (\<lambda>e. P (l e)) (map g [0..<n])"
    by auto
  have k: "?k \<le> n" using length_filter_le[of "\<lambda>e. P (l e)" "map g [0..<n]"] by simp
  then have kl: "?k < length scratch" using Suc.prems len by simp
  show ?case
  proof (cases "P (l (g n))")
    case True
    have "take (Suc ?k) (scratch[?k := g n]) = take ?k scratch @ [g n]"
      using kl by (simp add: take_Suc_conv_app_nth)
    then show ?thesis using f len tk True by (simp add: Let_def)
  next
    case False
    then show ?thesis using f len tk by (simp add: Let_def)
  qed
qed

lemma fold_add_upt:
  "fold (\<lambda>i s. s + g i) [0..<n] (a::real) = a + sum_list (map g [0..<n])"
  by (induction n) simp_all

lemma map_nth_take: "n \<le> length xs \<Longrightarrow> map ((!) xs) [0..<n] = take n xs"
  by (rule nth_equalityI) simp_all

lemma scratchSum_take:
  "valid \<le> length scratch \<Longrightarrow> scratchSum scratch valid = sum_list (take valid scratch)"
  by (simp add: scratchSum_def fold_add_upt map_nth_take)

lemma fold_gated:
  "fold (\<lambda>i (gatedSum, gatedCount).
             let loudness = l (g i)
             in if Q loudness then (gatedSum + g i, gatedCount + 1)
                else (gatedSum, gatedCount))
       [0..<n] (0::real, 0::nat)
   = (sum_list (filter (\<lambda>e. Q (l e)) (map g [0..<n])), length (filter (\<lambda>e. Q (l e)) (map g [0..<n])))"
  by (induction n) (simp_all add: Let_def)

lemma relativeGated_take:
  assumes "valid \<le> length scratch"
  shows "relativeGated scratch valid gate
         = (sum_list (filter (\<lambda>e. energyToLoudness e \<ge> gate) (take valid scratch)),
            length (filter (\<lambda>e. energyToLoudness e \<ge> gate) (take valid scratch)))"
  unfolding relativeGated_def
  using fold_gated[where Q = "\<lambda>x. x \<ge> gate" and l = energyToLoudness and g = "(!) scratch" and n = valid]
  by (simp add: map_nth_take[OF assms])

lemma absoluteGate_ring:
  assumes "integratedFilled p \<le> length (integratedBlockEnergies p)"
  shows "\<exists>scratch. absoluteGate p
            = (scratch, length (filter (\<lambda>e. energyToLoudness e > - 70) (integratedRing p)))
         \<and> take (length (filter (\<lambda>e. energyToLoudness e > - 70) (integratedRing p))) scratch
            = filter (\<lambda>e. energyToLoudness e > - 70) (integratedRing p)"
proof -
  let ?cap = "length (integratedBlockEnergies p)"
  let ?count = "integratedFilled p"
  let ?start = "(integratedWriteIndex p + ?cap - ?count) mod ?cap"
  let ?s0 = "if length (integratedScratch p) < ?count
             then resize (integratedScratch p) ?cap else integratedScratch p"
  have le: "?count \<le> length ?s0" using assms by simp
  have ring: "integratedRing p = map (\<lambda>i. integratedBlockEnergies p ! ((?start + i) mod ?cap)) [0..<?count]"
    by (simp add: integratedRing_def ring_readout_def Let_def)
  from fold_pack[OF le, where g = "\<lambda>i. integratedBlockEnergies p ! ((?start + i) mod ?cap)"
      and l = energyToLoudness and P = "\<lambda>x. x > - 70"]
  show ?thesis unfolding ring absoluteGate_def Let_def by auto
qed

lemma updateLoudnessRange_integratedLoudness [simp]:
  "integratedLoudness (updateLoudnessRange p) = integratedLoudness p"
  by (simp add: updateLoudnessRange_def Let_def)

text \<open>
  Claim C1, as the code has it. For every state of the integrated-loudness ring whose
  filled count is within its capacity, the integrated loudness that
  \<open>updateIntegratedMetrics\<close> stores is the two-stage gated loudness of the stored block
  energies: a block survives the first stage when its loudness is strictly above -70 (a
  block at or below -70 is discarded); the mean energy of the survivors gives the
  relative gate, 10 LU below the mean's loudness; the result is the loudness of the mean
  energy of the survivors at or above that gate, -100 when no block survives the first
  stage, and the loudness of the ungated mean when the second stage leaves nothing.
\<close>

theorem integrated_two_stage_gate:
  assumes "integratedFilled p \<le> length (integratedBlockEnergies p)"
  shows "integratedLoudness (updateIntegratedMetrics p) = gated_integrated (integratedRing p)"
proof (cases "integratedFilled p = 0")
  case True
  have "integratedRing p = []" using True by (simp add: integratedRing_def ring_readout_def)
  then have "gated_integrated (integratedRing p) = - 100" by (simp add: gated_integrated_def)
  moreover have "integratedLoudness (updateIntegratedMetrics p) = - 100"
    using True by (simp add: updateIntegratedMetrics_def)
  ultimately show ?thesis by simp
next
  case False
  then have ne: "integratedBlockEnergies p \<noteq> []" using assms by auto
  define S where "S = filter (\<lambda>e. energyToLoudness e > - 70) (integratedRing p)"
  obtain scratch where ag: "absoluteGate p = (scratch, length S)"
    and tk: "take (length S) scratch = S"
    using absoluteGate_ring[OF assms] unfolding S_def by auto
  have vl: "length S \<le> length scratch"
    using arg_cong[OF tk, of length] by simp
  show ?thesis
  proof (cases "S = []")
    case True
    have "gated_integrated (integratedRing p) = - 100"
      using True unfolding gated_integrated_def S_def[symmetric] by simp
    moreover have "integratedLoudness (updateIntegratedMetrics p) = - 100"
      using False ne True unfolding updateIntegratedMetrics_def ag by simp
    ultimately show ?thesis by simp
  next
    case nonempty: False
    define mean where "mean = sum_list S / real (length S)"
    define G where "G = filter (\<lambda>e. energyToLoudness e \<ge> energyToLoudness mean - 10) S"
    have spec: "gated_integrated (integratedRing p)
                = (if G = [] then energyToLoudness mean
                   else energyToLoudness (sum_list G / real (length G)))"
      using nonempty unfolding gated_integrated_def S_def[symmetric] Let_def
      by (simp add: mean_def G_def)
    have ss: "scratchSum scratch (length S) = sum_list S"
      using scratchSum_take[OF vl] tk by simp
    have rg: "relativeGated scratch (length S) (energyToLoudness mean - 10) = (sum_list G, length G)"
      using relativeGated_take[OF vl] tk by (simp add: G_def)
    have len0: "length S \<noteq> 0" using nonempty by simp
    have code: "integratedLoudness (updateIntegratedMetrics p)
                = (if length G = 0 then energyToLoudness mean
                   else energyToLoudness (sum_list G / real (length G)))"
      using False ne len0 unfolding updateIntegratedMetrics_def ag Let_def
      by (simp add: ss mean_def[symmetric] rg)
    show ?thesis unfolding spec code by simp
  qed
qed


lemma energyToLoudness_mono: "a \<le> b \<Longrightarrow> energyToLoudness a \<le> energyToLoudness b"
  by (auto simp add: energyToLoudness_def jmax_def)

lemma energyToLoudness_boundary: "energyToLoudness boundaryEnergy = - 70"
proof -
  have "(1::real) / 10 ^ 12 = 10 powr (- 12)"
    by (simp add: powr_minus_divide powr_numeral)
  also have "\<dots> < 10 powr (- 6.9309)" by (rule powr_less_mono) simp_all
  finally have "jmax (1 / 10 ^ 12) (10 powr (- 6.9309) :: real) = 10 powr (- 6.9309)"
    by (simp add: jmax_def)
  then show ?thesis unfolding boundaryEnergy_def by (simp add: energyToLoudness_def)
qed

lemma energyToLoudness_one: "energyToLoudness 1 = - 0.691"
  by (simp add: energyToLoudness_def jmax_def)

lemma sum_list_le_bound:
  fixes xs :: "real list"
  assumes "\<And>x. x \<in> set xs \<Longrightarrow> x \<le> m"
  shows "sum_list xs \<le> real (length xs) * m"
  using assms
proof (induction xs)
  case Nil
  then show ?case by simp
next
  case (Cons a xs)
  have "a \<le> m" using Cons.prems by simp
  moreover have "sum_list xs \<le> real (length xs) * m" using Cons by simp
  ultimately show ?case by (simp add: algebra_simps)
qed

lemma mean_le_member:
  fixes xs :: "real list"
  assumes "xs \<noteq> []"
  shows "\<exists>x \<in> set xs. sum_list xs / real (length xs) \<le> x"
proof -
  let ?m = "Max (set xs)"
  have m: "?m \<in> set xs" using assms by (simp add: Max_in)
  have "sum_list xs \<le> real (length xs) * ?m"
    by (rule sum_list_le_bound) simp
  moreover have "0 < real (length xs)" using assms by simp
  ultimately have "sum_list xs / real (length xs) \<le> ?m"
    by (simp add: pos_divide_le_eq mult.commute)
  then show ?thesis using m by blast
qed

lemma relative_gate_keeps_one:
  assumes "S \<noteq> []"
  shows "filter (\<lambda>e. energyToLoudness e \<ge> energyToLoudness (sum_list S / real (length S)) - 10) S \<noteq> []"
proof -
  obtain x where x: "x \<in> set S" "sum_list S / real (length S) \<le> x"
    using mean_le_member[OF assms] by blast
  have "energyToLoudness (sum_list S / real (length S)) \<le> energyToLoudness x"
    by (rule energyToLoudness_mono[OF x(2)])
  then have "energyToLoudness x \<ge> energyToLoudness (sum_list S / real (length S)) - 10" by simp
  then show ?thesis using x(1) by (auto simp add: filter_empty_conv)
qed

lemma integratedRing_single:
  "integratedRing (constructed\<lparr>integratedBlockEnergies := [e], integratedWriteIndex := 0, integratedFilled := 1\<rparr>) = [e]"
  by (simp add: integratedRing_def ring_readout_def)

theorem integrated_two_stage_gate_witness:
  "integratedFilled oneBlock \<le> length (integratedBlockEnergies oneBlock)
   \<and> integratedLoudness (updateIntegratedMetrics oneBlock) = - 0.691"
proof -
  have h: "integratedFilled oneBlock \<le> length (integratedBlockEnergies oneBlock)"
    by (simp add: oneBlock_def)
  have "gated_integrated (integratedRing oneBlock) = - 0.691"
    unfolding oneBlock_def integratedRing_single
    by (simp add: gated_integrated_def energyToLoudness_one)
  then show ?thesis using h integrated_two_stage_gate[OF h] by simp
qed

text \<open>
  With ``below -70 is discarded'' read as the specification words it, a block whose
  loudness is exactly -70 would survive the first stage. The code discards it: for a
  ring that holds this one block the code yields -100, the specification's wording -70.
\<close>

theorem integrated_gate_boundary_counterexample:
  "integratedLoudness (updateIntegratedMetrics boundaryBlock)
     \<noteq> spec_integrated (integratedRing boundaryBlock)"
proof -
  have "absoluteGate boundaryBlock = ([0], 0)"
    by (simp add: boundaryBlock_def absoluteGate_def constructed_def resize_def
          energyToLoudness_boundary)
  then have code: "integratedLoudness (updateIntegratedMetrics boundaryBlock) = - 100"
    by (simp add: updateIntegratedMetrics_def boundaryBlock_def)
  have spec: "spec_integrated (integratedRing boundaryBlock) = - 70"
    unfolding boundaryBlock_def integratedRing_single
    by (simp add: spec_integrated_def energyToLoudness_boundary)
  show ?thesis unfolding code spec by simp
qed

text \<open>
  Claim C10. Whenever the first loop of \<open>updateIntegratedMetrics\<close> packs at least one
  block (\<open>valid \<noteq> 0\<close>), the third loop counts at least one block at or above the
  relative gate (\<open>gatedCount \<noteq> 0\<close>): a block of largest energy is at least as loud as the
  mean. The branch that assigns the ungated mean is never taken, and the published
  integrated loudness is the loudness of the relatively gated mean.
\<close>

theorem relative_gate_fallback_unreachable:
  assumes "integratedFilled p \<le> length (integratedBlockEnergies p)"
    and "absoluteGate p = (scratch, valid)"
    and "valid \<noteq> 0"
    and "relativeGated scratch valid (energyToLoudness (scratchSum scratch valid / real valid) - 10)
           = (gatedSum, gatedCount)"
  shows "gatedCount \<noteq> 0
       \<and> integratedLoudness (updateIntegratedMetrics p) = energyToLoudness (gatedSum / real gatedCount)"
proof -
  define S where "S = filter (\<lambda>e. energyToLoudness e > - 70) (integratedRing p)"
  obtain scratch' where ag: "absoluteGate p = (scratch', length S)"
    and tk': "take (length S) scratch' = S"
    using absoluteGate_ring[OF assms(1)] unfolding S_def by auto
  have eq: "scratch' = scratch" "length S = valid" using ag assms(2) by simp_all
  have tk: "take valid scratch = S" using tk' eq by simp
  have vl: "valid \<le> length scratch" using arg_cong[OF tk, of length] eq by simp
  have ne: "S \<noteq> []" using assms(3) eq by auto
  have ss: "scratchSum scratch valid = sum_list S" using scratchSum_take[OF vl] tk by simp
  define G where "G = filter (\<lambda>e. energyToLoudness e \<ge> energyToLoudness (sum_list S / real (length S)) - 10) S"
  have rg: "relativeGated scratch valid (energyToLoudness (sum_list S / real valid) - 10) = (sum_list G, length G)"
    using relativeGated_take[OF vl] tk eq by (simp add: G_def)
  have g: "gatedSum = sum_list G" "gatedCount = length G"
    using assms(4) rg unfolding ss by simp_all
  have gne: "G \<noteq> []" unfolding G_def by (rule relative_gate_keeps_one[OF ne])
  have filled: "integratedFilled p \<noteq> 0"
  proof
    assume "integratedFilled p = 0"
    then have "integratedRing p = []" by (simp add: integratedRing_def ring_readout_def)
    then show False using ne by (simp add: S_def)
  qed
  then have nonempty: "integratedBlockEnergies p \<noteq> []" using assms(1) by auto
  have "integratedLoudness (updateIntegratedMetrics p) = energyToLoudness (gatedSum / real gatedCount)"
    using filled nonempty assms(3) gne
    unfolding updateIntegratedMetrics_def assms(2) Let_def
    by (simp add: assms(4) g)
  then show ?thesis using gne g by simp
qed

theorem relative_gate_fallback_unreachable_witness:
  "absoluteGate oneBlock = ([1], 1)
   \<and> relativeGated [1] 1 (energyToLoudness (scratchSum [1] 1 / real (1::nat)) - 10) = (1, 1)
   \<and> integratedLoudness (updateIntegratedMetrics oneBlock) = energyToLoudness (1 / real (1::nat))"
proof -
  have h1: "integratedFilled oneBlock \<le> length (integratedBlockEnergies oneBlock)"
    by (simp add: oneBlock_def)
  have h2: "absoluteGate oneBlock = ([1], 1)"
    by (simp add: oneBlock_def absoluteGate_def constructed_def resize_def energyToLoudness_one)
  have h3: "(1::nat) \<noteq> 0" by simp
  have h4: "relativeGated [1] 1 (energyToLoudness (scratchSum [1] 1 / real (1::nat)) - 10) = (1, 1)"
    by (simp add: relativeGated_def scratchSum_def energyToLoudness_one)
  show ?thesis using relative_gate_fallback_unreachable[OF h1 h2 h3 h4] h2 h4 by simp
qed


lemma fold_copy:
  assumes "n \<le> length s0"
  shows "length (fold (\<lambda>i s. s[i := g i]) [0..<n] s0) = length s0
       \<and> take n (fold (\<lambda>i s. s[i := g i]) [0..<n] s0) = map g [0..<n]"
  using assms
proof (induction n)
  case 0
  then show ?case by simp
next
  case (Suc n)
  let ?s = "fold (\<lambda>i s. s[i := g i]) [0..<n] s0"
  have ih: "length ?s = length s0" "take n ?s = map g [0..<n]" using Suc by simp_all
  have n: "n < length ?s" using Suc.prems ih(1) by simp
  have "take (Suc n) (?s[n := g n]) = take n ?s @ [g n]"
    using n by (simp add: take_Suc_conv_app_nth)
  then show ?case using ih by simp
qed

lemma floor_index:
  fixes i :: real
  assumes "0 \<le> i"
  shows "real (nat \<lfloor>i\<rfloor>) \<le> i" and "i < real (nat \<lfloor>i\<rfloor>) + 1"
    and "i \<le> real m \<Longrightarrow> nat \<lfloor>i\<rfloor> \<le> m"
proof -
  have fl: "real (nat \<lfloor>i\<rfloor>) = of_int \<lfloor>i\<rfloor>" using assms by simp
  show "real (nat \<lfloor>i\<rfloor>) \<le> i" unfolding fl by (rule of_int_floor_le)
  show "i < real (nat \<lfloor>i\<rfloor>) + 1" unfolding fl by linarith
  show "nat \<lfloor>i\<rfloor> \<le> m" if "i \<le> real m"
  proof -
    have "\<lfloor>i\<rfloor> \<le> \<lfloor>real m\<rfloor>" using that by (rule floor_mono)
    then show ?thesis by simp
  qed
qed

lemma jmin_le: "jmin a b \<le> (a::nat)" "jmin a b \<le> b"
  by (simp_all add: jmin_def)

text \<open>The interpolation of \<open>percentile\<close> at a given index.\<close>

lemma percentile_at:
  assumes "i = real (valid - 1) * p"
  shows "percentile scratch valid p
         = scratch ! nat \<lfloor>i\<rfloor>
           + (scratch ! jmin (valid - 1) (nat \<lfloor>i\<rfloor> + 1) - scratch ! nat \<lfloor>i\<rfloor>) * (i - real (nat \<lfloor>i\<rfloor>))"
  unfolding percentile_def Let_def assms ..

lemma spec_percentile_at:
  assumes "i = real (length xs - 1) * p"
  shows "spec_percentile xs p
         = xs ! nat \<lfloor>i\<rfloor> + (xs ! nat \<lceil>i\<rceil> - xs ! nat \<lfloor>i\<rfloor>) * (i - real (nat \<lfloor>i\<rfloor>))"
  unfolding spec_percentile_def Let_def assms ..

lemma index_range:
  assumes "0 \<le> p" "p \<le> 1" "i = real m * p"
  shows "0 \<le> i" "i \<le> real m"
proof -
  show "0 \<le> i" using assms by simp
  have "real m * p \<le> real m * 1" using assms by (intro mult_left_mono) simp_all
  then show "i \<le> real m" using assms by simp
qed

lemma percentile_prefix:
  assumes "0 \<le> p" "p \<le> 1" "0 < length xs"
  shows "percentile (xs @ rest) (length xs) p = percentile xs (length xs) p"
proof -
  define i where "i = real (length xs - 1) * p"
  note r = index_range[OF assms(1,2) i_def]
  have "nat \<lfloor>i\<rfloor> \<le> length xs - 1" by (rule floor_index(3)[OF r])
  then have lo: "nat \<lfloor>i\<rfloor> < length xs" using assms(3) by linarith
  have "jmin (length xs - 1) (nat \<lfloor>i\<rfloor> + 1) \<le> length xs - 1" by (rule jmin_le)
  then have up: "jmin (length xs - 1) (nat \<lfloor>i\<rfloor> + 1) < length xs" using assms(3) by linarith
  show ?thesis
    unfolding percentile_at[OF i_def] using lo up by (simp only: nth_append if_True)
qed

lemma percentile_spec:
  assumes "0 \<le> p" "p \<le> 1" "0 < length xs"
  shows "percentile xs (length xs) p = spec_percentile xs p"
proof -
  define i where "i = real (length xs - 1) * p"
  define lo where "lo = nat \<lfloor>i\<rfloor>"
  note r = index_range[OF assms(1,2) i_def]
  note fi = floor_index[OF r(1), folded lo_def]
  show ?thesis
  proof (cases "i = real lo")
    case True
    then show ?thesis
      unfolding percentile_at[OF i_def] spec_percentile_at[OF i_def] lo_def[symmetric] by simp
  next
    case False
    have fl: "real lo = of_int \<lfloor>i\<rfloor>" unfolding lo_def using r(1) by simp
    have notint: "i \<noteq> of_int \<lfloor>i\<rfloor>" using False fl by simp
    have "\<lceil>i\<rceil> = \<lfloor>i\<rfloor> + 1"
      unfolding ceiling_altdef using notint by (simp only: if_False)
    then have hi: "nat \<lceil>i\<rceil> = lo + 1" unfolding lo_def using r(1) by (simp add: nat_add_distrib)
    have "real lo < real (length xs - 1)" using fi(1) False r(2) by linarith
    then have "lo + 1 \<le> length xs - 1" by linarith
    then have up: "jmin (length xs - 1) (lo + 1) = lo + 1" by (simp add: jmin_def)
    show ?thesis
      unfolding percentile_at[OF i_def] spec_percentile_at[OF i_def] lo_def[symmetric] up hi ..
  qed
qed

lemma percentile_mono:
  assumes "sorted xs" "0 \<le> p" "p \<le> q" "q \<le> 1" "0 < length xs"
  shows "percentile xs (length xs) p \<le> percentile xs (length xs) q"
proof -
  define m where "m = length xs - 1"
  define ip where "ip = real m * p"
  define iq where "iq = real m * q"
  define lp where "lp = nat \<lfloor>ip\<rfloor>"
  define lq where "lq = nat \<lfloor>iq\<rfloor>"
  define up where "up = jmin m (lp + 1)"
  define uq where "uq = jmin m (lq + 1)"
  have p1: "p \<le> 1" and q0: "0 \<le> q" using assms by simp_all
  note rp = index_range[OF assms(2) p1 ip_def]
  note rq = index_range[OF q0 assms(4) iq_def]
  note fp = floor_index[OF rp(1), folded lp_def]
  note fq = floor_index[OF rq(1), folded lq_def]
  have mn: "m < length xs" using assms(5) by (simp add: m_def)
  have le: "ip \<le> iq" unfolding ip_def iq_def using assms(3) by (intro mult_left_mono) simp_all
  have lple: "lp \<le> lq" unfolding lp_def lq_def using le by (intro nat_mono floor_mono)
  have lpm: "lp \<le> m" by (rule fp(3)[OF rp(2)])
  have lqm: "lq \<le> m" by (rule fq(3)[OF rq(2)])
  have upm: "up \<le> m" "lp \<le> up" using lpm by (simp_all add: up_def jmin_def)
  have uqm: "uq \<le> m" "lq \<le> uq" using lqm by (simp_all add: uq_def jmin_def)
  have sp: "xs ! lp \<le> xs ! up" using assms(1) upm mn by (intro sorted_nth_mono) simp_all
  have sq: "xs ! lq \<le> xs ! uq" using assms(1) uqm mn by (intro sorted_nth_mono) simp_all
  have Pp: "percentile xs (length xs) p = xs ! lp + (xs ! up - xs ! lp) * (ip - real lp)"
    using percentile_at[of ip "length xs" p xs] by (simp add: ip_def m_def lp_def up_def)
  have Pq: "percentile xs (length xs) q = xs ! lq + (xs ! uq - xs ! lq) * (iq - real lq)"
    using percentile_at[of iq "length xs" q xs] by (simp add: iq_def m_def lq_def uq_def)
  have frp: "0 \<le> ip - real lp" "ip - real lp \<le> 1" using fp by simp_all
  have frq: "0 \<le> iq - real lq" "iq - real lq \<le> 1" using fq by simp_all
  show ?thesis
  proof (cases "lp = lq")
    case True
    then have u: "up = uq" by (simp add: up_def uq_def)
    have "ip - real lp \<le> iq - real lq" using le True by simp
    then have "(xs ! up - xs ! lp) * (ip - real lp) \<le> (xs ! up - xs ! lp) * (iq - real lq)"
      using sp by (intro mult_left_mono) simp_all
    then show ?thesis unfolding Pp Pq using True u by simp
  next
    case False
    then have lt: "lp < lq" using lple by simp
    have "up \<le> lq" using lt by (simp add: up_def jmin_def)
    moreover have "lq < length xs" using lqm mn by linarith
    ultimately have mid: "xs ! up \<le> xs ! lq" using assms(1) by (intro sorted_nth_mono)
    have "(xs ! up - xs ! lp) * (ip - real lp) \<le> (xs ! up - xs ! lp) * 1"
      using sp frp by (intro mult_left_mono) simp_all
    then have a: "percentile xs (length xs) p \<le> xs ! up" unfolding Pp by simp
    have "0 \<le> (xs ! uq - xs ! lq) * (iq - real lq)" using sq frq by simp
    then have b: "xs ! lq \<le> percentile xs (length xs) q" unfolding Pq by simp
    show ?thesis using a mid b by linarith
  qed
qed

text \<open>
  Claim C4. For every state of the short-term history ring whose filled count is within
  its capacity, the loudness range that \<open>updateLoudnessRange\<close> stores is the one of the
  specification: samples below integrated - 20 are discarded, fewer than two remaining
  give 0, otherwise it is P95 - P10 of the sorted remainder with linear interpolation
  between the order statistics at the floor and the ceiling of (n - 1) p. The clamp
  \<open>jmax (0, high - low)\<close> of the code never changes the difference.
\<close>

theorem loudness_range_percentiles:
  assumes "shortTermHistoryFilled p \<le> length (shortTermHistoryBuffer p)"
  shows "loudnessRangeValue (updateLoudnessRange p)
         = spec_loudnessRange (shortTermRing p) (integratedLoudness p)"
proof (cases "shortTermHistoryFilled p < 2")
  case True
  have "length (filter (\<lambda>v. \<not> v < integratedLoudness p - 20) (shortTermRing p)) \<le> length (shortTermRing p)"
    by (rule length_filter_le)
  then have "length (filter (\<lambda>v. \<not> v < integratedLoudness p - 20) (shortTermRing p)) < 2"
    using True by (simp add: shortTermRing_def)
  then have "spec_loudnessRange (shortTermRing p) (integratedLoudness p) = 0"
    by (simp add: spec_loudnessRange_def Let_def)
  moreover have "loudnessRangeValue (updateLoudnessRange p) = 0"
    using True by (simp add: updateLoudnessRange_def)
  ultimately show ?thesis by simp
next
  case False
  then have ne: "shortTermHistoryBuffer p \<noteq> []" using assms by auto
  let ?cap = "length (shortTermHistoryBuffer p)"
  let ?count = "shortTermHistoryFilled p"
  let ?start = "(shortTermHistoryWriteIndex p + ?cap - ?count) mod ?cap"
  define s0 where "s0 = (if length (shortTermScratch p) < ?count
             then resize (shortTermScratch p) ?cap else shortTermScratch p)"
  define s1 where "s1 = fold (\<lambda>i scratch. scratch[i := shortTermHistoryBuffer p ! ((?start + i) mod ?cap)])
                         [0..<?count] s0"
  define kept where "kept = filter (\<lambda>v. \<not> v < integratedLoudness p - 20) (shortTermRing p)"
  have le: "?count \<le> length s0" using assms by (simp add: s0_def)
  have ring: "shortTermRing p = map (\<lambda>i. shortTermHistoryBuffer p ! ((?start + i) mod ?cap)) [0..<?count]"
    by (simp add: shortTermRing_def ring_readout_def Let_def)
  have tk: "take ?count s1 = shortTermRing p"
    unfolding s1_def ring using fold_copy[OF le] by simp
  have spec: "spec_loudnessRange (shortTermRing p) (integratedLoudness p)
              = (if length kept < 2 then 0
                 else spec_percentile (sort kept) 0.95 - spec_percentile (sort kept) 0.10)"
    by (simp add: spec_loudnessRange_def Let_def kept_def)
  have code: "loudnessRangeValue (updateLoudnessRange p)
              = (if length kept < 2 then 0
                 else jmax 0 (percentile (sort kept @ drop (length kept) (kept @ drop (length kept) s1)) (length kept) 0.95
                              - percentile (sort kept @ drop (length kept) (kept @ drop (length kept) s1)) (length kept) 0.10))"
    using False ne unfolding updateLoudnessRange_def Let_def s0_def[symmetric] s1_def[symmetric] tk
      kept_def[symmetric]
    by simp
  show ?thesis
  proof (cases "length kept < 2")
    case True
    then show ?thesis unfolding spec code by simp
  next
    case long: False
    then have pos: "0 < length (sort kept)" by (cases kept) simp_all
    have ls: "length (sort kept) = length kept" by simp
    have p95: "percentile (sort kept @ drop (length kept) (kept @ drop (length kept) s1)) (length kept) 0.95
               = spec_percentile (sort kept) 0.95"
      using percentile_prefix[of "0.95" "sort kept", OF _ _ pos]
        percentile_spec[of "0.95" "sort kept", OF _ _ pos] by simp
    have p10: "percentile (sort kept @ drop (length kept) (kept @ drop (length kept) s1)) (length kept) 0.10
               = spec_percentile (sort kept) 0.10"
      using percentile_prefix[of "0.10" "sort kept", OF _ _ pos]
        percentile_spec[of "0.10" "sort kept", OF _ _ pos] by simp
    have "spec_percentile (sort kept) 0.10 \<le> spec_percentile (sort kept) 0.95"
      using percentile_mono[of "sort kept" "0.10" "0.95", OF _ _ _ _ pos]
        percentile_spec[of "0.95" "sort kept", OF _ _ pos]
        percentile_spec[of "0.10" "sort kept", OF _ _ pos] by simp
    then show ?thesis unfolding spec code p95 p10 using long by (simp add: jmax_def)
  qed
qed


theorem loudness_range_percentiles_witness:
  "shortTermHistoryFilled threeSamples \<le> length (shortTermHistoryBuffer threeSamples)
   \<and> loudnessRangeValue (updateLoudnessRange threeSamples) = 17"
proof -
  have h: "shortTermHistoryFilled threeSamples \<le> length (shortTermHistoryBuffer threeSamples)"
    by (simp add: threeSamples_def)
  have ring: "shortTermRing threeSamples = [- 20, - 10, - 30, - 60]"
    by (simp add: threeSamples_def shortTermRing_def ring_readout_def upt_rec)
  have il: "integratedLoudness threeSamples = - 15" by (simp add: threeSamples_def)
  have f95: "\<lfloor>(19::real) / 10\<rfloor> = 1" "\<lceil>(19::real) / 10\<rceil> = 2" by linarith+
  have f10: "\<lfloor>(1::real) / 5\<rfloor> = 0" "\<lceil>(1::real) / 5\<rceil> = 1" by linarith+
  have "spec_loudnessRange (shortTermRing threeSamples) (integratedLoudness threeSamples) = 17"
    unfolding ring il
    by (simp add: spec_loudnessRange_def spec_percentile_def Let_def f95 f10)
  then show ?thesis using h loudness_range_percentiles[OF h] by simp
qed

section \<open>Stereo correlation\<close>













section \<open>The FFT input accumulator\<close>

lemma fftAccumulate_hop: "fftHop (fst (fftAccumulate fftSize pf x)) = fftHop (fst pf)"
  by (simp add: fftAccumulate_def Let_def)

lemma fft_frame_count_gen:
  assumes "fftInputPos p < fftSize" "fftHop p < fftSize"
  shows "length (snd (fold (\<lambda>x pf. fftAccumulate fftSize pf x) xs (p, frames)))
         = length frames
           + (if length xs < fftSize - fftInputPos p then 0
              else 1 + (length xs - (fftSize - fftInputPos p)) div (fftSize - fftHop p))"
  using assms
proof (induction xs arbitrary: p frames)
  case Nil
  then show ?case by simp
next
  case (Cons x xs)
  let ?d = "fftSize - fftHop p"
  have d: "0 < ?d" using Cons.prems by simp
  show ?case
  proof (cases "fftInputPos p + 1 \<ge> fftSize")
    case True
    then have pos: "fftInputPos p = fftSize - 1" using Cons.prems by simp
    let ?p1 = "p\<lparr>fftInput := rotate (fftSize - fftHop p) ((fftInput p)[fftInputPos p := x]),
                  fftInputPos := fftHop p\<rparr>"
    have step: "fftAccumulate fftSize (p, frames) x
                = (?p1, frames @ [(fftInput p)[fftInputPos p := x]])"
      using True by (simp add: fftAccumulate_def Let_def)
    have p1: "fftInputPos ?p1 < fftSize" "fftHop ?p1 < fftSize" using Cons.prems by simp_all
    have "length xs div ?d = (if length xs < ?d then 0 else 1 + (length xs - ?d) div ?d)"
      using d by (simp add: div_if)
    then show ?thesis
      using Cons.IH[OF p1, of "frames @ [(fftInput p)[fftInputPos p := x]]"] Cons.prems pos d
      unfolding fold_simps step by (simp add: Suc_diff_le)
  next
    case False
    let ?p1 = "p\<lparr>fftInput := (fftInput p)[fftInputPos p := x], fftInputPos := fftInputPos p + 1\<rparr>"
    have step: "fftAccumulate fftSize (p, frames) x = (?p1, frames)"
      using False by (simp add: fftAccumulate_def Let_def)
    have p1: "fftInputPos ?p1 < fftSize" "fftHop ?p1 < fftSize" using Cons.prems False by simp_all
    have e: "fftSize - fftInputPos ?p1 = fftSize - fftInputPos p - 1" by simp
    show ?thesis
      using Cons.IH[OF p1, of frames] False
      unfolding fold_simps step e by (auto simp add: Suc_diff_Suc)
  qed
qed

text \<open>
  The number of frames a run of samples produces: the first when the accumulator is
  full, then one every \<open>fftSize - fftHop\<close> samples.
\<close>

lemma fft_frame_count:
  assumes "fftInputPos p < fftSize" "fftHop p < fftSize"
  shows "length (snd (processBlock_fft fftSize p xs))
         = (if length xs < fftSize - fftInputPos p then 0
            else 1 + (length xs - (fftSize - fftInputPos p)) div (fftSize - fftHop p))"
  unfolding processBlock_fft_def using fft_frame_count_gen[OF assms, of xs "[]"] by simp

lemma prepared_fft: "fftInputPos prepared = 0" "fftHop prepared = 512"
  by (simp_all add: prepared_def prepareToPlay_def Let_def fft_getSize_def jmax_def)

text \<open>
  Claim C3, evaluated on the code. The first frame is emitted when the accumulator is
  full, after 2048 samples. The claim has the next frame \<open>hop = 512\<close> samples later; the
  code has emitted no further frame by then and emits the second frame 1536 samples
  after the first, because it rotates the accumulator by \<open>fftSize - fftHop\<close> and resumes
  writing at \<open>fftHop\<close>: it keeps the most recent \<open>hop\<close> samples, not the most recent
  \<open>fftSize - hop\<close>.
\<close>

theorem fft_frames_every_three_hops:
  "length (snd (processBlock_fft fft_getSize prepared (replicate 2048 0))) = 1
   \<and> length (snd (processBlock_fft fft_getSize prepared (replicate (2048 + 512) 0))) = 1
   \<and> length (snd (processBlock_fft fft_getSize prepared (replicate (2048 + 1536) 0))) = 2"
proof -
  have h: "fftInputPos prepared < fft_getSize" "fftHop prepared < fft_getSize"
    by (simp_all add: prepared_fft fft_getSize_def)
  show ?thesis
    unfolding fft_frame_count[OF h] by (simp add: prepared_fft fft_getSize_def)
qed


text \<open>
  At an emission the accumulator is rotated so that its last \<open>fftHop\<close> samples come
  first, and writing resumes behind them.
\<close>

lemma fftAccumulate_emit:
  assumes "fftInputPos p + 1 \<ge> fftSize" "length (fftInput p) = fftSize"
    and "0 < fftHop p" "fftHop p \<le> fftSize"
  shows "fftInput (fst (fftAccumulate fftSize (p, frames) x))
           = drop (fftSize - fftHop p) ((fftInput p)[fftInputPos p := x])
             @ take (fftSize - fftHop p) ((fftInput p)[fftInputPos p := x])"
    and "fftInputPos (fst (fftAccumulate fftSize (p, frames) x)) = fftHop p"
  using assms
  by (simp_all add: fftAccumulate_def Let_def rotate_drop_take)

section \<open>Ballistics\<close>

text \<open>
  The parts of claim C9 that the code does: the three coefficients of \<open>setBallistics\<close>,
  the per-sample peak envelope, and, for the fast RMS energy of the snapshot, the block
  coefficient \<open>pow (coeff, n)\<close> applied to the block's average squared value.
\<close>

lemma setBallistics_coefficients:
  "peakRiseCoeff (setBallistics p riseMs fallMs)
     = exp (- 1 / ((riseMs / 1000) * MiniMetersCloneAudioProcessor.sampleRate p))
   \<and> peakFallCoeff (setBallistics p riseMs fallMs)
     = exp (- 1 / ((fallMs / 1000) * MiniMetersCloneAudioProcessor.sampleRate p))
   \<and> rmsCoeff (setBallistics p riseMs fallMs)
     = exp (- 1 / ((300 / 1000) * MiniMetersCloneAudioProcessor.sampleRate p))"
  by (simp add: setBallistics_def Let_def)

lemma peakEnvelope_step:
  "peakEnvelope rise fall (samples @ [x])
   = (let pk = peakEnvelope rise fall samples; a = \<bar>x\<bar>
      in if a > pk then rise * pk + (1 - rise) * a else fall * pk + (1 - fall) * a)"
  by (simp add: peakEnvelope_def Let_def)

lemma processBlock_peak:
  "numCh buffer \<ge> 1 \<Longrightarrow>
     peakL (processBlock_ballistics p buffer)
       = peakEnvelope (peakRiseCoeff p) (peakFallCoeff p) (channel buffer 0)"
  by (simp add: processBlock_ballistics_def Let_def)

lemma processBlock_rmsFast:
  "rmsFastEnergy (processBlock_rmsEnergies p buffer)
   = rmsFastCoeff p ^ getNumSamples buffer * rmsFastEnergy p
     + (1 - rmsFastCoeff p ^ getNumSamples buffer) * blockEnergyAvg buffer"
  by (simp add: processBlock_rmsEnergies_def Let_def)

lemma fourOnes_block:
  "numCh fourOnes = 2" "getNumSamples fourOnes = 4"
  "channel fourOnes 0 = [1, 1, 1, 1]" "channel fourOnes 1 = [1, 1, 1, 1]"
  by (simp_all add: fourOnes_def numCh_def getNumChannels_def getNumSamples_def jmin_def
        channel_def upt_rec)

text \<open>
  Claim C9, evaluated on the code. After \<open>setBallistics (10, 300)\<close> at 48 kHz the RMS
  coefficient is exp (-1 / 14400). For a block of four samples of value 1, whose RMS and
  average squared value are both 1, and a previous RMS of 0, the code stores
  \<open>1 - coeff\<close>: the coefficient is applied once, not raised to the block size, so the
  stored value differs from the \<open>pow (coeff, N)\<close> blend of the claim.
\<close>

theorem rms_coefficient_not_raised_to_block_size:
  "rmsCoeff (setBallistics constructed 10 300) = exp (- 1 / 14400)
   \<and> squareSum (channel fourOnes 0) / real (getNumSamples fourOnes) = 1
   \<and> rmsL (processBlock_ballistics (setBallistics constructed 10 300) fourOnes)
       = 1 - exp (- 1 / 14400)
   \<and> rmsL (processBlock_ballistics (setBallistics constructed 10 300) fourOnes)
       \<noteq> exp (- 1 / 14400) ^ getNumSamples fourOnes * rmsL (setBallistics constructed 10 300)
          + (1 - exp (- 1 / 14400) ^ getNumSamples fourOnes)
            * (squareSum (channel fourOnes 0) / real (getNumSamples fourOnes))"
proof -
  let ?p = "setBallistics constructed 10 300"
  let ?c = "exp (- 1 / 14400 :: real)"
  have c: "rmsCoeff ?p = ?c"
    by (simp add: setBallistics_def constructed_def Let_def)
  have prev: "rmsL ?p = 0" by (simp add: setBallistics_def constructed_def Let_def)
  have blk: "rmsBlockL fourOnes = 1"
    by (simp add: rmsBlockL_def fourOnes_block squareSum_def jmax_def)
  have avg: "squareSum (channel fourOnes 0) / real (getNumSamples fourOnes) = 1"
    by (simp add: fourOnes_block squareSum_def)
  have code: "rmsL (processBlock_ballistics ?p fourOnes) = 1 - ?c"
    unfolding processBlock_ballistics_def Let_def by (simp add: c prev blk)
  have c01: "0 < ?c" "?c < 1" by simp_all
  have "?c ^ 4 < ?c ^ 1" using c01 by (intro power_strict_decreasing) simp_all
  then have ne: "1 - ?c \<noteq> ?c ^ 4 * 0 + (1 - ?c ^ 4) * 1" by simp
  show ?thesis
    unfolding code avg using c ne by (simp add: prev fourOnes_block)
qed


section \<open>Preparing with an invalid configuration\<close>

lemma std_round_nonpos: "x \<le> 0 \<Longrightarrow> std_round x \<le> 0"
  by (auto simp add: std_round_def ceiling_le_iff)

lemma std_round_capacities: "std_round 1500 = 1500" "std_round 400 = 400"
proof -
  have "\<lfloor>(3001::real) / 2\<rfloor> = 1500" "\<lfloor>(801::real) / 2\<rfloor> = 400" by linarith+
  then show "std_round 1500 = 1500" "std_round 400 = 400" by (simp_all add: std_round_def)
qed

lemma getNumSamples_cleared:
  "0 < channels \<Longrightarrow> getNumSamples (clearedBuffer channels samples) = samples"
  by (cases channels) (simp_all add: getNumSamples_def clearedBuffer_def)

lemma jmax_one_nonpos: "(x::int) \<le> 0 \<Longrightarrow> nat (jmax 1 x) = 1"
  by (simp add: jmax_def)

lemma jmax_one_pos: "1 \<le> nat (jmax 1 (x::int))"
  by (auto simp add: jmax_def)

lemma jmax_one_nat: "1 \<le> jmax (1::nat) x"
  by (simp add: jmax_def)

text \<open>
  Claim C8, as the code has it. \<open>prepareToPlay\<close> has no failure path: called with a
  sample rate or a block size that is 0 or negative it returns a prepared object. Every
  derived size is at least 1, the ring capacities are the fixed ones (1500 integrated
  blocks, 400 loudness-history slots, 512 waveform buckets, 2048 oscilloscope samples, FFT
  hop 512). With a sample rate of 0 or less the sizes derived from it are exactly 1 and
  the published loudness-history interval is 0; with a block size of 0 or less the
  block size handed to the filters is 1.
\<close>

theorem prepareToPlay_clamps:
  assumes "sr \<le> 0 \<or> samplesPerBlock \<le> 0"
  shows
    "(let p' = fst (prepareToPlay p sr samplesPerBlock);
          spec = snd (prepareToPlay p sr samplesPerBlock)
      in (1 \<le> integratedBlockSamples p'
          \<and> 1 \<le> loudnessHistoryIntervalSamples p'
          \<and> 1 \<le> SharedState.waveformSamplesPerBucket (shared p')
          \<and> 1 \<le> getNumSamples (SharedState.audioHistory (shared p'))
          \<and> 1 \<le> getNumSamples (spectrogramHistory (shared p'))
          \<and> 1 \<le> maximumBlockSize spec)
         \<and> (length (integratedBlockEnergies p') = 1500
          \<and> length (shortTermHistoryBuffer p') = 400
          \<and> length (SharedState.loudnessHistory (shared p')) = 400
          \<and> length (waveformMin (shared p') 0) = 512
          \<and> length (oscilloscopeBuffer (shared p')) = 2048
          \<and> fftHop p' = 512)
         \<and> (sr \<le> 0 \<longrightarrow>
               integratedBlockSamples p' = 1
             \<and> loudnessHistoryIntervalSamples p' = 1
             \<and> SharedState.waveformSamplesPerBucket (shared p') = 1
             \<and> getNumSamples (SharedState.audioHistory (shared p')) = 1
             \<and> getNumSamples (spectrogramHistory (shared p')) = 1
             \<and> SharedState.loudnessHistoryInterval (shared p') = 0)
         \<and> (samplesPerBlock \<le> 0 \<longrightarrow> maximumBlockSize spec = 1))"
proof -
  define p' where "p' = fst (prepareToPlay p sr samplesPerBlock)"
  define spec where "spec = snd (prepareToPlay p sr samplesPerBlock)"
  have sr': "MiniMetersCloneAudioProcessor.sampleRate (setBallistics (p\<lparr>MiniMetersCloneAudioProcessor.sampleRate := sr\<rparr>) 10 300) = sr"
    by (simp add: setBallistics_def Let_def)
  have ibs: "integratedBlockSamples p' = nat (jmax 1 (std_round (sr * 0.4)))"
    unfolding p'_def prepareToPlay_def Let_def sr' by simp
  have lis: "loudnessHistoryIntervalSamples p' = nat (jmax 1 (std_round (sr * kLoudnessHistoryIntervalSeconds)))"
    unfolding p'_def prepareToPlay_def Let_def sr' by simp
  have wsb: "SharedState.waveformSamplesPerBucket (shared p')
             = jmax 1 (nat (jmax 1 (std_round (sr * 10))) div kWaveformResolution)"
    unfolding p'_def prepareToPlay_def Let_def sr' by simp
  have ah: "SharedState.audioHistory (shared p') = clearedBuffer 2 (nat (jmax 1 (std_round (sr * 10))))"
    unfolding p'_def prepareToPlay_def Let_def sr' by simp
  have sg: "spectrogramHistory (shared p')
            = clearedBuffer (fft_getSize div 2) (nat (jmax 1 \<lceil>3 * sr / real (jmax 1 (fft_getSize div 4))\<rceil>))"
    unfolding p'_def prepareToPlay_def Let_def sr' by simp
  have mb: "maximumBlockSize spec = nat (jmax 1 samplesPerBlock)"
    unfolding spec_def prepareToPlay_def Let_def by simp
  have li: "SharedState.loudnessHistoryInterval (shared p')
            = (if sr > 0 then real (nat (jmax 1 (std_round (sr * kLoudnessHistoryIntervalSeconds)))) / sr else 0)"
    unfolding p'_def prepareToPlay_def Let_def sr' by simp
  have caps: "length (integratedBlockEnergies p') = 1500
          \<and> length (shortTermHistoryBuffer p') = 400
          \<and> length (SharedState.loudnessHistory (shared p')) = 400
          \<and> length (waveformMin (shared p') 0) = 512
          \<and> length (oscilloscopeBuffer (shared p')) = 2048
          \<and> fftHop p' = 512"
    unfolding p'_def prepareToPlay_def Let_def
    by (simp add: std_round_capacities kLoudnessHistorySpanSeconds_def
          kLoudnessHistoryIntervalSeconds_def kWaveformResolution_def kOscilloscopeBufferSize_def
          fft_getSize_def jmax_def)
  have bins: "0 < fft_getSize div 2" by (simp add: fft_getSize_def)
  have ge: "1 \<le> integratedBlockSamples p'
          \<and> 1 \<le> loudnessHistoryIntervalSamples p'
          \<and> 1 \<le> SharedState.waveformSamplesPerBucket (shared p')
          \<and> 1 \<le> getNumSamples (SharedState.audioHistory (shared p'))
          \<and> 1 \<le> getNumSamples (spectrogramHistory (shared p'))
          \<and> 1 \<le> maximumBlockSize spec"
    unfolding ibs lis wsb ah sg mb getNumSamples_cleared[OF bins]
      getNumSamples_cleared[of 2, simplified]
    by (intro conjI jmax_one_pos jmax_one_nat)
  have neg: "integratedBlockSamples p' = 1
             \<and> loudnessHistoryIntervalSamples p' = 1
             \<and> SharedState.waveformSamplesPerBucket (shared p') = 1
             \<and> getNumSamples (SharedState.audioHistory (shared p')) = 1
             \<and> getNumSamples (spectrogramHistory (shared p')) = 1
             \<and> SharedState.loudnessHistoryInterval (shared p') = 0" if "sr \<le> 0"
  proof -
    have r1: "std_round (sr * 0.4) \<le> 0" "std_round (sr * kLoudnessHistoryIntervalSeconds) \<le> 0"
      "std_round (sr * 10) \<le> 0"
      using that
      by (auto intro!: std_round_nonpos simp add: kLoudnessHistoryIntervalSeconds_def
            mult_le_0_iff)
    have "3 * sr / real (jmax 1 (fft_getSize div 4)) \<le> 0"
      using that by (simp add: fft_getSize_def jmax_def)
    then have r2: "\<lceil>3 * sr / real (jmax 1 (fft_getSize div 4))\<rceil> \<le> 0"
      by (simp add: ceiling_le_iff)
    have w: "jmax 1 (1 div kWaveformResolution) = (1::nat)"
      by (simp add: jmax_def kWaveformResolution_def)
    show ?thesis
      unfolding ibs lis wsb ah sg li getNumSamples_cleared[OF bins]
        getNumSamples_cleared[of 2, simplified]
        jmax_one_nonpos[OF r1(1)] jmax_one_nonpos[OF r1(2)] jmax_one_nonpos[OF r1(3)]
        jmax_one_nonpos[OF r2] w
      using that by simp
  qed
  have blk: "maximumBlockSize spec = 1" if "samplesPerBlock \<le> 0"
    unfolding mb using that by (rule jmax_one_nonpos)
  show ?thesis
    unfolding Let_def p'_def[symmetric] spec_def[symmetric]
    using ge caps neg blk by blast
qed

theorem prepareToPlay_clamps_witness:
  "integratedBlockSamples (fst (prepareToPlay constructed (- 44100) (- 1))) = 1
   \<and> length (integratedBlockEnergies (fst (prepareToPlay constructed (- 44100) (- 1)))) = 1500
   \<and> SharedState.loudnessHistoryInterval (shared (fst (prepareToPlay constructed (- 44100) (- 1)))) = 0
   \<and> maximumBlockSize (snd (prepareToPlay constructed (- 44100) (- 1))) = 1"
  using prepareToPlay_clamps[of "- 44100" "- 1" constructed]
  by (simp add: Let_def)

text \<open>
  Called with sample rate 0 and block size 0, \<open>prepareToPlay\<close> does not reject the
  configuration: it returns the prepared object, with its ring capacities computed.
\<close>

theorem prepareToPlay_does_not_reject:
  "integratedBlockSamples (fst (prepareToPlay constructed 0 0)) = 1
   \<and> length (integratedBlockEnergies (fst (prepareToPlay constructed 0 0))) = 1500
   \<and> length (SharedState.loudnessHistory (shared (fst (prepareToPlay constructed 0 0)))) = 400
   \<and> getNumSamples (spectrogramHistory (shared (fst (prepareToPlay constructed 0 0)))) = 1
   \<and> length (oscilloscopeBuffer (shared (fst (prepareToPlay constructed 0 0)))) = 2048
   \<and> maximumBlockSize (snd (prepareToPlay constructed 0 0)) = 1"
  by (simp add: prepareToPlay_def Let_def setBallistics_def std_round_def jmax_def
        kLoudnessHistorySpanSeconds_def kLoudnessHistoryIntervalSeconds_def
        getNumSamples_cleared fft_getSize_def kOscilloscopeBufferSize_def)

end
